theory Spec2Isabelle
  imports Main
begin

section \<open>JavaScript values and strings\<close>

text \<open>
  The tracker of \<^verbatim>\<open>src/event_tracker.js\<close> (lines 1 to 449) reads the page, keeps a few
  scalars in the closures of its listeners and writes to the console.  Its values are
  modelled by the datatype below.  Pixel quantities are integers; the result of the one
  division of the source (the scroll percentage) can also be an infinity or NaN.
  Strings are lists of characters; the characters outside ASCII that the source's labels
  contain are written as their UTF-8 bytes.
\<close>

datatype jsnum = Fin int | PInf | NInf | NaN

datatype jsval =
    Undefined
  | Null
  | Bool bool
  | Num jsnum
  | Str string
  | DateISO nat       \<comment> \<open>the string \<^verbatim>\<open>new Date().toISOString()\<close> at that instant\<close>
  | DateLocale nat    \<comment> \<open>the string \<^verbatim>\<open>new Date().toLocaleString()\<close> at that instant\<close>
  | NodeRef nat       \<comment> \<open>a reference to the DOM object of that identity\<close>
  | Obj "(string \<times> jsval) list"

fun truthy :: "jsval \<Rightarrow> bool" where
  "truthy Undefined = False"
| "truthy Null = False"
| "truthy (Bool b) = b"
| "truthy (Num (Fin n)) = (n \<noteq> 0)"
| "truthy (Num NaN) = False"
| "truthy (Num _) = True"
| "truthy (Str s) = (s \<noteq> [])"
| "truthy _ = True"

text \<open>\<^verbatim>\<open>x || 'N/A'\<close> on a property that is a string or undefined (\<open>None\<close>).\<close>

definition or_NA :: "string option \<Rightarrow> jsval" where
  "or_NA x = (case x of None \<Rightarrow> Str ''N/A'' | Some s \<Rightarrow> if s = [] then Str ''N/A'' else Str s)"

definition or_else :: "jsval \<Rightarrow> jsval \<Rightarrow> jsval" where
  "or_else x d = (if truthy x then x else d)"

definition opt_str :: "string option \<Rightarrow> jsval" where
  "opt_str x = (case x of None \<Rightarrow> Undefined | Some s \<Rightarrow> Str s)"

text \<open>
  \<^verbatim>\<open>String.prototype.toLowerCase\<close> on the ASCII letters.  No character outside ASCII
  lower-cases to one of the letters of \<^verbatim>\<open>password\<close>, so the test of the submit listener
  does not depend on the rest of the Unicode mapping.
\<close>

definition toLowerCase_char :: "char \<Rightarrow> char" where
  "toLowerCase_char c =
     (case map_of (zip ''ABCDEFGHIJKLMNOPQRSTUVWXYZ'' ''abcdefghijklmnopqrstuvwxyz'') c of
        None \<Rightarrow> c
      | Some d \<Rightarrow> d)"

definition toLowerCase :: "string \<Rightarrow> string" where
  "toLowerCase s = map toLowerCase_char s"

fun js_includes :: "string \<Rightarrow> string \<Rightarrow> bool" where
  "js_includes [] sub = (sub = [])"
| "js_includes (c # cs) sub = (take (length sub) (c # cs) = sub \<or> js_includes cs sub)"

text \<open>The decimal digits of a number, as \<^verbatim>\<open>String(n)\<close> writes an integer.\<close>

definition digit :: "nat \<Rightarrow> char" where
  "digit d = ''0123456789'' ! d"

fun decimal :: "nat \<Rightarrow> string" where
  "decimal n = (if 10 \<le> n then decimal (n div 10) @ [digit (n mod 10)] else [digit n])"

definition number_toString :: "int \<Rightarrow> string" where
  "number_toString i = (if 0 \<le> i then decimal (nat i) else CHR ''-'' # decimal (nat (- i)))"

fun string_of_num :: "jsnum \<Rightarrow> string" where
  "string_of_num (Fin i) = number_toString i"
| "string_of_num PInf = ''Infinity''"
| "string_of_num NInf = ''-Infinity''"
| "string_of_num NaN = ''NaN''"

section \<open>The console\<close>

text \<open>
  The sink.  Every call of \<^verbatim>\<open>console.log\<close> and \<^verbatim>\<open>console.table\<close> is kept with its
  arguments, in the order of the calls.
\<close>

datatype console_call = Log "jsval list" | Table jsval

datatype exn = TypeError

section \<open>The page\<close>

text \<open>
  A DOM object as the tracker reads it, with the properties typed as the DOM declares
  them on elements (a form control that is named like a property of its form and
  shadows it there is outside the model).  A property the object does not have is
  \<open>None\<close> (or \<open>Undefined\<close>).  \<open>key\<close> is the identity of the object, which \<^verbatim>\<open>===\<close>
  compares.  \<open>entries\<close> is the entry list that \<^verbatim>\<open>new FormData(element)\<close> builds,
  \<open>None\<close> when the element is not a form (the constructor throws a TypeError then);
  the value of an entry is a string or a File object, given by its identity.
  \<open>childNodes\<close> lists, for every child in document order, its identity, its node type
  and its tag name.  A node is its properties together with its parent node, \<open>None\<close>
  for \<^verbatim>\<open>parentNode === null\<close>.
\<close>

datatype form_value = Text string | File nat

record child =
  c_key :: nat
  c_nodeType :: nat
  c_tagName :: "string option"

record attrs =
  key :: nat
  nodeType :: nat
  nodeName :: string
  tagName :: "string option"
  el_id :: "string option"
  className :: jsval
  textContent :: "string option"
  el_value :: jsval
  el_type :: "string option"
  el_name :: "string option"
  el_action :: "string option"
  el_method :: "string option"
  entries :: "(string \<times> form_value) list option"
  childNodes :: "child list"

datatype node = Node (props: attrs) (parentNode: "node option")

text \<open>
  The page: the objects of the DOM by identity (\<open>dom\<close>), \<^verbatim>\<open>document.body\<close>, what
  \<^verbatim>\<open>window\<close>, \<^verbatim>\<open>document\<close>, \<^verbatim>\<open>screen\<close>, \<^verbatim>\<open>navigator\<close> and \<^verbatim>\<open>performance\<close> give
  to the tracker, the computed style of every element, the names of the read-only
  attributes that the browser's File objects inherit (\<^verbatim>\<open>name\<close>, \<^verbatim>\<open>size\<close>, \<^verbatim>\<open>type\<close>
  and the like, which an assignment cannot shadow), and, although the tracker reads
  neither, the local storage and the requests the page has sent.
\<close>

record page =
  dom :: "nat \<Rightarrow> node"
  body :: "nat option"
  readyState :: string
  href :: string
  pathname :: string
  title :: string
  referrer :: string
  userAgent :: string
  innerWidth :: int
  innerHeight :: int
  screen_width :: int
  screen_height :: int
  pageYOffset :: int
  docScrollTop :: int
  docScrollHeight :: int
  hidden :: bool
  navigationStart :: nat
  computedStyle :: "nat \<Rightarrow> string \<Rightarrow> string"
  file_readonly :: "string list"
  localStorage :: "(string \<times> string) list"
  requests :: "string list"

text \<open>
  The scalars the listeners keep in their closures.  A pending timer is its deadline
  (the instant of \<^verbatim>\<open>setTimeout\<close> plus the delay) together with what its callback has
  captured of the event; \<open>None\<close> when no timer of the category is pending.
\<close>

record tracker =
  inputTimeout :: "(nat \<times> nat) option"
  scrollTimeout :: "nat option"
  mouseTimeout :: "(nat \<times> int \<times> int \<times> nat) option"
  lastScrollPosition :: jsnum
  lastMousePosition :: "int \<times> int"

text \<open>
  The world the script runs in: the page, the time, the calls of the console, the
  scalars of the closures, the types of events the tracker has registered a listener
  for, whether \<^verbatim>\<open>window.EventTracker\<close> is set, and the exceptions that have left a
  listener and were reported by the browser.
\<close>

record world =
  page :: page
  clock :: nat
  console :: "console_call list"
  tracker :: tracker
  listeners :: "string list"
  eventTracker :: bool
  uncaught :: "exn list"

definition emit :: "console_call list \<Rightarrow> world \<Rightarrow> world" where
  "emit cs w = w\<lparr>console := console w @ cs\<rparr>"

definition blank :: console_call where
  "blank = Log [Str '''']"

section \<open>Labels\<close>

definition badge :: "string \<Rightarrow> string" where
  "badge colour = ''background: '' @ colour @
     ''; color: white; padding: 5px 10px; border-radius: 3px; font-weight: bold;''"

definition e_target :: string where "e_target = [CHR 0xF0, CHR 0x9F, CHR 0x8E, CHR 0xAF]"
definition e_chart :: string where "e_chart = [CHR 0xF0, CHR 0x9F, CHR 0x93, CHR 0x8A]"
definition e_globe :: string where "e_globe = [CHR 0xF0, CHR 0x9F, CHR 0x8C, CHR 0x90]"
definition e_phone :: string where "e_phone = [CHR 0xF0, CHR 0x9F, CHR 0x93, CHR 0xB1]"
definition e_desktop :: string where
  "e_desktop = [CHR 0xF0, CHR 0x9F, CHR 0x96, CHR 0xA5, CHR 0xEF, CHR 0xB8, CHR 0x8F]"
definition e_ruler :: string where "e_ruler = [CHR 0xF0, CHR 0x9F, CHR 0x93, CHR 0x8F]"
definition e_page :: string where "e_page = [CHR 0xF0, CHR 0x9F, CHR 0x93, CHR 0x84]"
definition e_finger :: string where "e_finger = [CHR 0xF0, CHR 0x9F, CHR 0x91, CHR 0x86]"
definition e_memo :: string where "e_memo = [CHR 0xF0, CHR 0x9F, CHR 0x93, CHR 0x9D]"
definition e_keyboard :: string where
  "e_keyboard = [CHR 0xE2, CHR 0x8C, CHR 0xA8, CHR 0xEF, CHR 0xB8, CHR 0x8F]"
definition e_scroll :: string where "e_scroll = [CHR 0xF0, CHR 0x9F, CHR 0x93, CHR 0x9C]"
definition e_mouse :: string where
  "e_mouse = [CHR 0xF0, CHR 0x9F, CHR 0x96, CHR 0xB1, CHR 0xEF, CHR 0xB8, CHR 0x8F]"
definition e_eye :: string where
  "e_eye = [CHR 0xF0, CHR 0x9F, CHR 0x91, CHR 0x81, CHR 0xEF, CHR 0xB8, CHR 0x8F]"
definition e_door :: string where "e_door = [CHR 0xF0, CHR 0x9F, CHR 0x9A, CHR 0xAA]"
definition e_check :: string where "e_check = [CHR 0xE2, CHR 0x9C, CHR 0x85]"

section \<open>Structural locators\<close>

text \<open>
  White space: the six ASCII characters among those that \<^verbatim>\<open>trim\<close> and \<^verbatim>\<open>\s\<close> accept;
  the white space outside ASCII (such as the no-break space) is not modelled.
\<close>

definition is_space :: "char \<Rightarrow> bool" where
  "is_space c = (c \<in> set [CHR 0x20, CHR 0x09, CHR 0x0A, CHR 0x0B, CHR 0x0C, CHR 0x0D])"

definition trim :: "string \<Rightarrow> string" where
  "trim s = rev (dropWhile is_space (rev (dropWhile is_space s)))"

text \<open>
  \<^verbatim>\<open>s.split(/\s+/)\<close>: \<open>cur\<close> is the piece being read.  A white-space character that is
  followed by another one continues the separator; the last one of a run ends the piece.
\<close>

fun split_ws :: "string \<Rightarrow> string \<Rightarrow> string list" where
  "split_ws cur [] = [cur]"
| "split_ws cur [c] = (if is_space c then [cur, []] else [cur @ [c]])"
| "split_ws cur (c # d # cs) =
     (if is_space c then (if is_space d then split_ws cur (d # cs) else cur # split_ws [] (d # cs))
      else split_ws (cur @ [c]) (d # cs))"

fun js_join :: "string \<Rightarrow> string list \<Rightarrow> string" where
  "js_join sep [] = []"
| "js_join sep [x] = x"
| "js_join sep (x # y # ys) = x @ sep @ js_join sep (y # ys)"

definition selector_of :: "attrs \<Rightarrow> string" where
  "selector_of a =
     (let selector = toLowerCase (nodeName a) in
      case className a of
        Str c \<Rightarrow> if c \<noteq> [] then selector @ ''.'' @ js_join ''.'' (split_ws [] (trim c)) else selector
      | _ \<Rightarrow> selector)"

text \<open>
  The \<^verbatim>\<open>while\<close> loop of \<^verbatim>\<open>getCSSSelector\<close>, with the array \<^verbatim>\<open>path\<close> as accumulator:
  \<^verbatim>\<open>unshift\<close> puts the selector in front, the loop ends when the parent is null or is
  not an element.
\<close>

fun getCSSSelector_loop :: "node \<Rightarrow> string list \<Rightarrow> string list" where
  "getCSSSelector_loop (Node a p) path =
     (if nodeType a = 1 then
        (let path' = selector_of a # path in
         case p of
           None \<Rightarrow> path'
         | Some q \<Rightarrow> if nodeType (props q) \<noteq> 1 then path' else getCSSSelector_loop q path')
      else path)"

text \<open>
  \<^verbatim>\<open>element.id\<close> as the tests \<^verbatim>\<open>if (element.id)\<close> and the concatenations read it:
  the test fails for the empty string and for undefined alike.
\<close>

definition id_string :: "attrs \<Rightarrow> string" where
  "id_string a = (case el_id a of None \<Rightarrow> [] | Some i \<Rightarrow> i)"

definition getCSSSelector :: "node \<Rightarrow> string" where
  "getCSSSelector element =
     (if id_string (props element) \<noteq> [] then ''#'' @ id_string (props element)
      else js_join '' > '' (getCSSSelector_loop element []))"

text \<open>
  The \<^verbatim>\<open>for\<close> loop of \<^verbatim>\<open>getXPath\<close> over the parent's child nodes: \<open>Some index\<close> when
  it reaches the element itself, \<open>None\<close> when it runs off the end of the list (the
  function then returns undefined).
\<close>

fun siblings_loop :: "child list \<Rightarrow> attrs \<Rightarrow> nat \<Rightarrow> nat option" where
  "siblings_loop [] a index = None"
| "siblings_loop (s # ss) a index =
     (if c_key s = key a then Some index
      else if c_nodeType s = 1 \<and> c_tagName s = tagName a then siblings_loop ss a (index + 1)
      else siblings_loop ss a index)"

text \<open>
  \<^verbatim>\<open>getXPath\<close>; \<open>bd\<close> is the identity of \<^verbatim>\<open>document.body\<close>.  The result is a string or
  undefined (\<open>None\<close>); reading \<^verbatim>\<open>childNodes\<close> of a null parent and calling
  \<^verbatim>\<open>toLowerCase\<close> on an undefined tag name throw a TypeError.
\<close>

fun getXPath :: "nat option \<Rightarrow> node \<Rightarrow> exn + string option" where
  "getXPath bd (Node a p) =
     (if id_string a \<noteq> []
      then Inr (Some (''//*[@id='' @ [CHR 0x22] @ id_string a @ [CHR 0x22] @ '']''))
      else if Some (key a) = bd then Inr (Some ''/html/body'')
      else (case p of
              None \<Rightarrow> Inl TypeError
            | Some q \<Rightarrow>
                (case siblings_loop (childNodes (props q)) a 0 of
                   None \<Rightarrow> Inr None
                 | Some index \<Rightarrow>
                     (case getXPath bd q of
                        Inl e \<Rightarrow> Inl e
                      | Inr r \<Rightarrow>
                          (case tagName a of
                             None \<Rightarrow> Inl TypeError
                           | Some t \<Rightarrow>
                               Inr (Some ((case r of None \<Rightarrow> ''undefined'' | Some s \<Rightarrow> s) @ ''/'' @
                                    toLowerCase t @ ''['' @ decimal (index + 1) @ '']'')))))))"

text \<open>
  \<^verbatim>\<open>getRelevantStyles\<close>: \<^verbatim>\<open>window.getComputedStyle\<close> throws a TypeError when its
  argument is not an element.
\<close>

definition style_names :: "(string \<times> string) list" where
  "style_names =
     [(''display'', ''display''), (''position'', ''position''),
      (''backgroundColor'', ''background-color''), (''color'', ''color''),
      (''fontSize'', ''font-size''), (''fontWeight'', ''font-weight''),
      (''border'', ''border''), (''padding'', ''padding''), (''margin'', ''margin''),
      (''width'', ''width''), (''height'', ''height'')]"

definition getRelevantStyles :: "page \<Rightarrow> node \<Rightarrow> exn + jsval" where
  "getRelevantStyles pg element =
     (if nodeType (props element) \<noteq> 1 then Inl TypeError
      else Inr (Obj (map (\<lambda>(f, c). (f, Str (computedStyle pg (key (props element)) c))) style_names)))"

section \<open>Clicks\<close>

record click_event =
  target :: nat
  clientX :: int
  clientY :: int
  pageX :: int
  pageY :: int

text \<open>
  The descriptor of the clicked element; \<^verbatim>\<open>substring(0, 50)\<close> is taken on the characters
  of the model's strings (the code counts UTF-16 code units).
\<close>

definition element_descriptor :: "attrs \<Rightarrow> jsval" where
  "element_descriptor element =
     Obj [(''tagName'', opt_str (tagName element)),
          (''id'', or_NA (el_id element)),
          (''className'', or_else (className element) (Str ''N/A'')),
          (''textContent'',
             (case textContent element of
                None \<Rightarrow> Str ''N/A''
              | Some t \<Rightarrow> if t \<noteq> [] then Str (take 50 t @ ''...'') else Str ''N/A'')),
          (''value'', or_else (el_value element) (Str ''N/A'')),
          (''type'', or_NA (el_type element)),
          (''name'', or_NA (el_name element))]"

definition position_of :: "click_event \<Rightarrow> jsval" where
  "position_of event =
     Obj [(''x'', Num (Fin (clientX event))), (''y'', Num (Fin (clientY event))),
          (''pageX'', Num (Fin (pageX event))), (''pageY'', Num (Fin (pageY event)))]"

definition click_listener :: "click_event \<Rightarrow> world \<Rightarrow> exn + world" where
  "click_listener event w =
     (let element = dom (page w) (target event);
          cssSelector = getCSSSelector element
      in case getRelevantStyles (page w) element of
           Inl e \<Rightarrow> Inl e
         | Inr computedStyles \<Rightarrow>
             (case getXPath (body (page w)) element of
                Inl e \<Rightarrow> Inl e
              | Inr xpath \<Rightarrow>
                  (let clickData =
                         Obj [(''event'', Str ''CLICK''),
                              (''timestamp'', DateISO (clock w)),
                              (''element'', element_descriptor (props element)),
                              (''position'', position_of event),
                              (''cssSelector'', Str cssSelector),
                              (''computedStyles'', computedStyles),
                              (''xpath'', opt_str xpath)]
                   in Inr (emit
                        [Log [Str (''%c'' @ e_finger @ '' CLICK EVENT''), Str (badge ''#2196F3'')],
                         Log [Str ''Element:'', NodeRef (target event)],
                         Table (element_descriptor (props element)),
                         Log [Str ''Position:'', position_of event],
                         Log [Str ''CSS Selector:'', Str cssSelector],
                         Log [Str ''XPath:'', opt_str xpath],
                         Log [Str ''Computed Styles:'', computedStyles],
                         Log [Str ''Full Data:'', clickData],
                         blank] w))))"

section \<open>Form submission\<close>

definition MASKED :: string where
  "MASKED = ''***MASKED***''"

text \<open>
  The object \<^verbatim>\<open>formValues\<close>: its own properties in the order in which JavaScript
  enumerates them (the names that are array indices first, by their number, then the
  other names in the order of their creation), and its prototype: \<open>None\<close> for
  \<^verbatim>\<open>Object.prototype\<close>, which the literal \<^verbatim>\<open>{}\<close> has, or a File object.
\<close>

record js_object =
  own :: "(string \<times> jsval) list"
  proto :: "nat option"

definition new_object :: js_object where
  "new_object = \<lparr>own = [], proto = None\<rparr>"

definition value_of :: "form_value \<Rightarrow> jsval" where
  "value_of v = (case v of Text s \<Rightarrow> Str s | File f \<Rightarrow> NodeRef f)"

text \<open>
  An array index is the decimal numeral, without leading zeros, of a number below
  \<open>2\<^sup>3\<^sup>2 - 1\<close>.
\<close>

definition digit_value :: "char \<Rightarrow> nat" where
  "digit_value c = length (takeWhile (\<lambda>d. d \<noteq> c) ''0123456789'')"

definition index_value :: "string \<Rightarrow> nat" where
  "index_value k = foldl (\<lambda>n c. 10 * n + digit_value c) 0 k"

definition is_array_index :: "string \<Rightarrow> bool" where
  "is_array_index k =
     (case k of
        [] \<Rightarrow> False
      | c # cs \<Rightarrow>
          list_all (\<lambda>d. d \<in> set ''0123456789'') k \<and> (cs = [] \<or> c \<noteq> CHR ''0'') \<and>
          index_value k < 4294967295)"

fun replace_own :: "(string \<times> jsval) list \<Rightarrow> string \<Rightarrow> jsval \<Rightarrow> (string \<times> jsval) list" where
  "replace_own [] k v = []"
| "replace_own ((k', v') # ps) k v = (if k' = k then (k, v) # ps else (k', v') # replace_own ps k v)"

fun insert_index :: "(string \<times> jsval) list \<Rightarrow> string \<Rightarrow> jsval \<Rightarrow> (string \<times> jsval) list" where
  "insert_index [] k v = [(k, v)]"
| "insert_index ((k', v') # ps) k v =
     (if is_array_index k' \<and> index_value k' < index_value k then (k', v') # insert_index ps k v
      else (k, v) # (k', v') # ps)"

text \<open>
  An own property gets a value: one that exists keeps its place, a new one is put where
  the enumeration has it.
\<close>

definition define_own :: "(string \<times> jsval) list \<Rightarrow> string \<Rightarrow> jsval \<Rightarrow> (string \<times> jsval) list" where
  "define_own ps k v =
     (if k \<in> set (map fst ps) then replace_own ps k v
      else if is_array_index k then insert_index ps k v
      else ps @ [(k, v)])"

text \<open>
  The assignment \<^verbatim>\<open>formValues[key] = value\<close>, in the strict mode that the script
  declares.  For the name \<^verbatim>\<open>__proto__\<close> it reaches the setter that every object
  inherits from \<^verbatim>\<open>Object.prototype\<close>: the setter makes an object (here a File) the
  prototype and ignores a string; no own property is set.  For another name that is
  not an own property yet, the assignment throws a TypeError when the object inherits,
  from a File that was made its prototype, a read-only attribute of that name; otherwise
  it sets the own property.
\<close>

definition obj_set :: "string list \<Rightarrow> js_object \<Rightarrow> string \<Rightarrow> form_value \<Rightarrow> exn + js_object" where
  "obj_set readonly obj k v =
     (if k = ''__proto__''
      then (case v of Text _ \<Rightarrow> Inr obj | File f \<Rightarrow> Inr (obj\<lparr>proto := Some f\<rparr>))
      else if k \<notin> set (map fst (own obj)) \<and> proto obj \<noteq> None \<and> k \<in> set readonly
      then Inl TypeError
      else Inr (obj\<lparr>own := define_own (own obj) k (value_of v)\<rparr>))"

text \<open>
  The loop over \<^verbatim>\<open>formData.entries()\<close>; \<open>formValues\<close> is the object built so far, and
  \<open>readonly\<close> are the read-only attributes that File objects inherit.
\<close>

fun formValues_loop ::
  "string list \<Rightarrow> (string \<times> form_value) list \<Rightarrow> js_object \<Rightarrow> exn + js_object" where
  "formValues_loop readonly [] formValues = Inr formValues"
| "formValues_loop readonly ((k, v) # rest) formValues =
     (if js_includes (toLowerCase k) ''password''
      then (case obj_set readonly formValues k (Text MASKED) of
              Inl e \<Rightarrow> Inl e
            | Inr formValues' \<Rightarrow> formValues_loop readonly rest formValues')
      else (case obj_set readonly formValues k v of
              Inl e \<Rightarrow> Inl e
            | Inr formValues' \<Rightarrow> formValues_loop readonly rest formValues'))"

definition form_descriptor :: "attrs \<Rightarrow> jsval" where
  "form_descriptor form =
     Obj [(''id'', or_NA (el_id form)),
          (''name'', or_NA (el_name form)),
          (''action'', or_NA (el_action form)),
          (''method'',
             (case el_method form of
                None \<Rightarrow> Str ''GET''
              | Some m \<Rightarrow> if m = [] then Str ''GET'' else Str m))]"

text \<open>The record \<^verbatim>\<open>submitData\<close> of the submit listener, given the object \<^verbatim>\<open>formValues\<close>.\<close>

definition submitData :: "nat \<Rightarrow> attrs \<Rightarrow> js_object \<Rightarrow> (string \<times> jsval) list" where
  "submitData now form formValues =
     [(''event'', Str ''FORM_SUBMIT''),
      (''timestamp'', DateISO now),
      (''form'', form_descriptor form),
      (''fields'', Obj (own formValues))]"

definition submit_listener :: "nat \<Rightarrow> world \<Rightarrow> exn + world" where
  "submit_listener tgt w =
     (let form = props (dom (page w) tgt)
      in case entries form of
           None \<Rightarrow> Inl TypeError
         | Some es \<Rightarrow>
             (case formValues_loop (file_readonly (page w)) es new_object of
                Inl e \<Rightarrow> Inl e
              | Inr formValues \<Rightarrow>
                  Inr (emit
                    [Log [Str (''%c'' @ e_memo @ '' FORM SUBMIT''), Str (badge ''#FF9800'')],
                     Log [Str ''Form Element:'', NodeRef tgt],
                     Table (the (map_of (submitData (clock w) form formValues) ''form'')),
                     Log [Str ''Form Data:'', Obj (own formValues)],
                     blank] w)))"

section \<open>Input changes\<close>

text \<open>
  The input listener clears the timer of its closure and sets a new one, 500 time units
  ahead; the callback keeps the event, of which it reads the target.  The callback
  reads the properties of the target when it runs.
\<close>

definition input_listener :: "nat \<Rightarrow> world \<Rightarrow> world" where
  "input_listener tgt w = w\<lparr>tracker := (tracker w)\<lparr>inputTimeout := Some (clock w + 500, tgt)\<rparr>\<rparr>"

definition input_descriptor :: "attrs \<Rightarrow> jsval" where
  "input_descriptor element =
     Obj [(''tagName'', opt_str (tagName element)),
          (''type'', or_NA (el_type element)),
          (''id'', or_NA (el_id element)),
          (''name'', or_NA (el_name element)),
          (''value'', if el_type element = Some ''password'' then Str MASKED else el_value element)]"

definition inputData :: "nat \<Rightarrow> attrs \<Rightarrow> jsval" where
  "inputData now element =
     Obj [(''event'', Str ''INPUT_CHANGE''),
          (''timestamp'', DateISO now),
          (''element'', input_descriptor element)]"

definition input_record :: "attrs \<Rightarrow> console_call list" where
  "input_record element =
     [Log [Str (''%c'' @ e_keyboard @ ''  INPUT CHANGE''), Str (badge ''#9C27B0'')],
      Table (input_descriptor element),
      blank]"

definition input_callback :: "nat \<Rightarrow> world \<Rightarrow> world" where
  "input_callback tgt w =
     (let element = props (dom (page w) tgt)
      in if tagName element = Some ''INPUT'' \<or> tagName element = Some ''TEXTAREA'' \<or>
            tagName element = Some ''SELECT''
         then emit (input_record element) w
         else w)"

section \<open>Scrolling\<close>

fun num_sub :: "jsnum \<Rightarrow> jsnum \<Rightarrow> jsnum" where
  "num_sub (Fin a) (Fin b) = Fin (a - b)"
| "num_sub NaN _ = NaN"
| "num_sub _ NaN = NaN"
| "num_sub PInf PInf = NaN"
| "num_sub NInf NInf = NaN"
| "num_sub PInf _ = PInf"
| "num_sub NInf _ = NInf"
| "num_sub (Fin a) PInf = NInf"
| "num_sub (Fin a) NInf = PInf"

fun num_abs :: "jsnum \<Rightarrow> jsnum" where
  "num_abs (Fin a) = Fin \<bar>a\<bar>"
| "num_abs PInf = PInf"
| "num_abs NInf = PInf"
| "num_abs NaN = NaN"

text \<open>\<open>num_gt a b\<close> is \<^verbatim>\<open>a > b\<close>.\<close>

fun num_gt :: "jsnum \<Rightarrow> jsnum \<Rightarrow> bool" where
  "num_gt (Fin a) (Fin b) = (a > b)"
| "num_gt NaN _ = False"
| "num_gt _ NaN = False"
| "num_gt PInf PInf = False"
| "num_gt PInf _ = True"
| "num_gt NInf _ = False"
| "num_gt (Fin a) PInf = False"
| "num_gt (Fin a) NInf = True"

text \<open>
  \<^verbatim>\<open>Math.round((scrollTop / scrollHeight) * 100)\<close>, with the quotient taken exactly:
  \<^verbatim>\<open>Math.round\<close> rounds a half upwards, so the result is the floor of
  \<open>100 * scrollTop / scrollHeight + 1 / 2\<close>.  A division by zero gives NaN or an infinity.
  The code rounds the double that the floating-point division and multiplication give,
  which can lie just below an exact half (the offset 145 of 1000 gives 14 there and 15
  here); the properties of the scroll records below do not depend on the rounding.
\<close>

definition percentage_of :: "int \<Rightarrow> int \<Rightarrow> jsnum" where
  "percentage_of scrollTop scrollHeight =
     (if scrollHeight = 0
      then (if scrollTop = 0 then NaN else if scrollTop > 0 then PInf else NInf)
      else Fin ((200 * scrollTop + scrollHeight) div (2 * scrollHeight)))"

definition scrollTop_of :: "page \<Rightarrow> int" where
  "scrollTop_of pg = (if pageYOffset pg \<noteq> 0 then pageYOffset pg else docScrollTop pg)"

definition scrollPercentage_of :: "page \<Rightarrow> jsnum" where
  "scrollPercentage_of pg = percentage_of (scrollTop_of pg) (docScrollHeight pg - innerHeight pg)"

definition scroll_listener :: "world \<Rightarrow> world" where
  "scroll_listener w = w\<lparr>tracker := (tracker w)\<lparr>scrollTimeout := Some (clock w + 200)\<rparr>\<rparr>"

text \<open>
  The record \<^verbatim>\<open>scrollData\<close>; it is built after the assignment to
  \<^verbatim>\<open>lastScrollPosition\<close>, whose new value \<open>lastPos\<close> the direction reads.
\<close>

definition scrollData :: "nat \<Rightarrow> int \<Rightarrow> jsnum \<Rightarrow> jsnum \<Rightarrow> jsval" where
  "scrollData now scrollTop scrollPercentage lastPos =
     Obj [(''event'', Str ''SCROLL''),
          (''timestamp'', DateISO now),
          (''position'', Num (Fin scrollTop)),
          (''percentage'', Str (string_of_num scrollPercentage @ ''%'')),
          (''direction'', if num_gt (Fin scrollTop) lastPos then Str ''down'' else Str ''up'')]"

definition scroll_callback :: "world \<Rightarrow> world" where
  "scroll_callback w =
     (let scrollTop = scrollTop_of (page w);
          scrollPercentage = scrollPercentage_of (page w)
      in if num_gt (num_abs (num_sub scrollPercentage (lastScrollPosition (tracker w)))) (Fin 10)
         then (let w' = w\<lparr>tracker := (tracker w)\<lparr>lastScrollPosition := scrollPercentage\<rparr>\<rparr>
               in emit
                    [Log [Str (''%c'' @ e_scroll @ '' SCROLL EVENT''), Str (badge ''#00BCD4'')],
                     Table (scrollData (clock w') scrollTop scrollPercentage
                              (lastScrollPosition (tracker w'))),
                     blank] w')
         else w)"

section \<open>Mouse movement\<close>

text \<open>
  On integer coordinates the square root of the squared distance exceeds 100 exactly
  when the squared distance exceeds 10000.
\<close>

definition mousemove_listener :: "int \<Rightarrow> int \<Rightarrow> nat \<Rightarrow> world \<Rightarrow> world" where
  "mousemove_listener x y tgt w =
     w\<lparr>tracker := (tracker w)\<lparr>mouseTimeout := Some (clock w + 1000, x, y, tgt)\<rparr>\<rparr>"

definition mouse_callback :: "int \<Rightarrow> int \<Rightarrow> nat \<Rightarrow> world \<Rightarrow> world" where
  "mouse_callback x y tgt w =
     (let (lx, ly) = lastMousePosition (tracker w)
      in if (x - lx) * (x - lx) + (y - ly) * (y - ly) > 10000
         then emit
                [Log [Str (''%c'' @ e_mouse @ ''  MOUSE MOVE''), Str (badge ''#607D8B'')],
                 Table (Obj [(''event'', Str ''MOUSE_MOVE''),
                             (''timestamp'', DateISO (clock w)),
                             (''position'', Obj [(''x'', Num (Fin x)), (''y'', Num (Fin y))]),
                             (''elementUnderCursor'', opt_str (tagName (props (dom (page w) tgt))))]),
                 blank]
                (w\<lparr>tracker := (tracker w)\<lparr>lastMousePosition := (x, y)\<rparr>\<rparr>)
         else w)"

section \<open>Keys, visibility, leaving the page, custom events\<close>

record key_event =
  k_key :: string
  k_code :: string
  ctrlKey :: bool
  shiftKey :: bool
  altKey :: bool
  k_target :: nat

definition keyData :: "nat \<Rightarrow> key_event \<Rightarrow> string option \<Rightarrow> jsval" where
  "keyData now event tag =
     Obj [(''event'', Str ''KEYPRESS''),
          (''timestamp'', DateISO now),
          (''key'', Str (k_key event)),
          (''code'', Str (k_code event)),
          (''ctrlKey'', Bool (ctrlKey event)),
          (''shiftKey'', Bool (shiftKey event)),
          (''altKey'', Bool (altKey event)),
          (''targetElement'', opt_str tag)]"

definition key_record :: "nat \<Rightarrow> key_event \<Rightarrow> string option \<Rightarrow> console_call list" where
  "key_record now event tag =
     [Log [Str (''%c'' @ e_keyboard @ ''  KEYPRESS''), Str (badge ''#795548'')],
      Table (keyData now event tag),
      blank]"

definition keydown_listener :: "key_event \<Rightarrow> world \<Rightarrow> world" where
  "keydown_listener event w =
     (if el_type (props (dom (page w) (k_target event))) = Some ''password'' then w
      else emit (key_record (clock w) event (tagName (props (dom (page w) (k_target event))))) w)"

definition visibility_listener :: "world \<Rightarrow> world" where
  "visibility_listener w =
     emit [Log [Str (''%c'' @ e_eye @ ''  VISIBILITY CHANGE''), Str (badge ''#E91E63'')],
           Table (Obj [(''event'', Str ''VISIBILITY_CHANGE''),
                       (''timestamp'', DateISO (clock w)),
                       (''state'', if hidden (page w) then Str ''hidden'' else Str ''visible'')]),
           blank] w"

definition beforeunload_listener :: "world \<Rightarrow> world" where
  "beforeunload_listener w =
     emit [Log [Str (''%c'' @ e_door @ '' PAGE EXIT''), Str (badge ''#F44336'')],
           Table (Obj [(''event'', Str ''PAGE_EXIT''),
                       (''timestamp'', DateISO (clock w)),
                       (''timeOnPage'',
                          Str (number_toString
                                 ((2 * (int (clock w) - int (navigationStart (page w))) + 1000) div 2000)
                               @ '' seconds'')),
                       (''url'', Str (href (page w)))]),
           blank] w"

text \<open>
  \<^verbatim>\<open>EventTracker.trackCustomEvent\<close>.  The function has no \<^verbatim>\<open>return\<close>: a call evaluates
  to undefined.
\<close>

definition trackCustomEvent :: "string \<Rightarrow> jsval \<Rightarrow> world \<Rightarrow> jsval \<times> world" where
  "trackCustomEvent eventName eventData w =
     (Undefined,
      emit [Log [Str (''%c'' @ e_target @ '' CUSTOM EVENT: '' @ eventName), Str (badge ''#673AB7'')],
            Log [Str ''Event Data:'', eventData],
            Log [Str ''Timestamp:'', DateISO (clock w)],
            blank] w)"

section \<open>Initialisation\<close>

definition trackPageView :: "world \<Rightarrow> world" where
  "trackPageView w =
     emit [Log [Str (''%c'' @ e_page @ '' PAGE VIEW''), Str (badge ''#4CAF50'')],
           Table (Obj [(''event'', Str ''PAGE_VIEW''),
                       (''timestamp'', DateISO (clock w)),
                       (''url'', Str (href (page w))),
                       (''path'', Str (pathname (page w))),
                       (''title'', Str (title (page w))),
                       (''referrer'',
                          if referrer (page w) = [] then Str ''Direct'' else Str (referrer (page w))),
                       (''viewport'', Obj [(''width'', Num (Fin (innerWidth (page w)))),
                                           (''height'', Num (Fin (innerHeight (page w))))]),
                       (''screen'', Obj [(''width'', Num (Fin (screen_width (page w)))),
                                         (''height'', Num (Fin (screen_height (page w))))])]),
           blank] w"

definition initial_tracker :: tracker where
  "initial_tracker =
     \<lparr>inputTimeout = None, scrollTimeout = None, mouseTimeout = None,
      lastScrollPosition = Fin 0, lastMousePosition = (0, 0)\<rparr>"

definition banner :: "world \<Rightarrow> console_call list" where
  "banner w =
     [Log [Str ''%c========================================'', Str ''color: #667eea; font-weight: bold;''],
      Log [Str (''%c'' @ e_target @ '' UNIVERSAL EVENT TRACKER INITIALIZED''),
           Str ''color: #667eea; font-weight: bold; font-size: 16px;''],
      Log [Str ''%c========================================'', Str ''color: #667eea; font-weight: bold;''],
      Log [Str (e_chart @ '' Tracking started at:''), DateLocale (clock w)],
      Log [Str (e_globe @ '' Page URL:''), Str (href (page w))],
      Log [Str (e_phone @ '' User Agent:''), Str (userAgent (page w))],
      Log [Str (e_desktop @ ''  Screen Resolution:''),
           Str (number_toString (screen_width (page w)) @ ''x'' @ number_toString (screen_height (page w)))],
      Log [Str (e_ruler @ '' Viewport Size:''),
           Str (number_toString (innerWidth (page w)) @ ''x'' @ number_toString (innerHeight (page w)))],
      blank]"

text \<open>
  \<^verbatim>\<open>initializeTracker\<close>: the banner, the page view, then the eight \<^verbatim>\<open>setup...\<close>
  functions, which register one listener each and initialise the scalars of its closure.
\<close>

definition initializeTracker :: "world \<Rightarrow> world" where
  "initializeTracker w =
     (trackPageView (emit (banner w) w))
       \<lparr>tracker := initial_tracker,
        listeners := listeners w @
          [''click'', ''submit'', ''input'', ''scroll'', ''mousemove'', ''keydown'',
           ''visibilitychange'', ''beforeunload'']\<rparr>"

text \<open>The body of the immediately invoked function, run when the script is loaded.\<close>

definition tracker_script :: "world \<Rightarrow> world" where
  "tracker_script w =
     (let w1 = (if readyState (page w) = ''loading''
                then w\<lparr>listeners := listeners w @ [''DOMContentLoaded'']\<rparr>
                else initializeTracker w)
      in emit [Log [Str (''%c'' @ e_check @ '' Event Tracker Ready!''),
                    Str ''color: #4CAF50; font-weight: bold; font-size: 14px;''],
               Log [Str ''Use EventTracker.trackCustomEvent(name, data) to track custom events''],
               blank]
              (w1\<lparr>eventTracker := True\<rparr>))"

section \<open>The event loop\<close>

datatype event =
    Click click_event
  | Submit nat
  | Input nat
  | Scroll
  | MouseMove int int nat
  | KeyDown key_event
  | VisibilityChange
  | BeforeUnload
  | DOMContentLoaded

fun event_type :: "event \<Rightarrow> string" where
  "event_type (Click _) = ''click''"
| "event_type (Submit _) = ''submit''"
| "event_type (Input _) = ''input''"
| "event_type Scroll = ''scroll''"
| "event_type (MouseMove _ _ _) = ''mousemove''"
| "event_type (KeyDown _) = ''keydown''"
| "event_type VisibilityChange = ''visibilitychange''"
| "event_type BeforeUnload = ''beforeunload''"
| "event_type DOMContentLoaded = ''DOMContentLoaded''"

fun listener :: "event \<Rightarrow> world \<Rightarrow> exn + world" where
  "listener (Click e) w = click_listener e w"
| "listener (Submit tgt) w = submit_listener tgt w"
| "listener (Input tgt) w = Inr (input_listener tgt w)"
| "listener Scroll w = Inr (scroll_listener w)"
| "listener (MouseMove x y tgt) w = Inr (mousemove_listener x y tgt w)"
| "listener (KeyDown e) w = Inr (keydown_listener e w)"
| "listener VisibilityChange w = Inr (visibility_listener w)"
| "listener BeforeUnload w = Inr (beforeunload_listener w)"
| "listener DOMContentLoaded w = Inr (initializeTracker w)"

text \<open>
  The browser runs the listener of the tracker when one is registered for the type of
  the event (that the path of the event reaches the document or the window is taken for
  granted; an event on a node in no document does not).  An exception that leaves the listener ends it; the browser reports the
  exception and goes on.
\<close>

definition dispatch :: "event \<Rightarrow> world \<Rightarrow> world" where
  "dispatch e w =
     (if event_type e \<in> set (listeners w)
      then (case listener e w of
              Inl x \<Rightarrow> w\<lparr>uncaught := uncaught w @ [x]\<rparr>
            | Inr w' \<Rightarrow> w')
      else w)"

datatype timer_cat = TMouse | TInput | TScroll

text \<open>
  The pending timers whose deadline has come at \<open>t\<close>.  The delay of a category is fixed,
  so of two timers with the same deadline the one with the longer delay was set first:
  the list is in that order, and \<open>earliest\<close> takes the first of the least deadline.
\<close>

definition due_timers :: "nat \<Rightarrow> tracker \<Rightarrow> (nat \<times> timer_cat) list" where
  "due_timers t k =
     filter (\<lambda>(d, c). d \<le> t)
       ((case mouseTimeout k of None \<Rightarrow> [] | Some (d, _) \<Rightarrow> [(d, TMouse)]) @
        (case inputTimeout k of None \<Rightarrow> [] | Some (d, _) \<Rightarrow> [(d, TInput)]) @
        (case scrollTimeout k of None \<Rightarrow> [] | Some d \<Rightarrow> [(d, TScroll)]))"

fun earliest :: "(nat \<times> timer_cat) list \<Rightarrow> (nat \<times> timer_cat) option" where
  "earliest [] = None"
| "earliest (x # xs) =
     (case earliest xs of
        None \<Rightarrow> Some x
      | Some y \<Rightarrow> if fst y < fst x then Some y else Some x)"

text \<open>A timer fires at its deadline: its callback runs with the clock there.\<close>

fun fire :: "timer_cat \<Rightarrow> world \<Rightarrow> world" where
  "fire TInput w =
     (case inputTimeout (tracker w) of
        None \<Rightarrow> w
      | Some (d, tgt) \<Rightarrow>
          input_callback tgt
            (w\<lparr>clock := max (clock w) d, tracker := (tracker w)\<lparr>inputTimeout := None\<rparr>\<rparr>))"
| "fire TScroll w =
     (case scrollTimeout (tracker w) of
        None \<Rightarrow> w
      | Some d \<Rightarrow>
          scroll_callback
            (w\<lparr>clock := max (clock w) d, tracker := (tracker w)\<lparr>scrollTimeout := None\<rparr>\<rparr>))"
| "fire TMouse w =
     (case mouseTimeout (tracker w) of
        None \<Rightarrow> w
      | Some (d, x, y, tgt) \<Rightarrow>
          mouse_callback x y tgt
            (w\<lparr>clock := max (clock w) d, tracker := (tracker w)\<lparr>mouseTimeout := None\<rparr>\<rparr>))"

definition run_timer :: "nat \<Rightarrow> world \<Rightarrow> world" where
  "run_timer t w =
     (case earliest (due_timers t (tracker w)) of
        None \<Rightarrow> w
      | Some (d, c) \<Rightarrow> fire c w)"

text \<open>
  Time passes until \<open>t\<close>.  At most three timers are pending and no callback sets a
  timer, so three rounds fire all that are due.
\<close>

definition advance :: "nat \<Rightarrow> world \<Rightarrow> world" where
  "advance t w = (let w' = run_timer t (run_timer t (run_timer t w)) in w'\<lparr>clock := max (clock w') t\<rparr>)"

text \<open>
  What happens on the page: an event is dispatched, or the user or another script
  changes the page.  A trace gives each happening its instant.
\<close>

datatype action = Dispatch event | PageChange "page \<Rightarrow> page"

fun step :: "world \<Rightarrow> nat \<times> action \<Rightarrow> world" where
  "step w (t, Dispatch e) = dispatch e (advance t w)"
| "step w (t, PageChange f) = (let w' = advance t w in w'\<lparr>page := f (page w')\<rparr>)"

definition run :: "(nat \<times> action) list \<Rightarrow> world \<Rightarrow> world" where
  "run tr w = foldl step w tr"

text \<open>The user gives the field \<open>x\<close> the value \<open>v\<close>; the browser then dispatches the input event.\<close>

definition set_value :: "nat \<Rightarrow> jsval \<Rightarrow> page \<Rightarrow> page" where
  "set_value x v pg =
     pg\<lparr>dom := (dom pg)(x := Node ((props (dom pg x))\<lparr>el_value := v\<rparr>) (parentNode (dom pg x)))\<rparr>"

fun typing :: "(nat \<times> nat \<times> jsval) list \<Rightarrow> (nat \<times> action) list" where
  "typing [] = []"
| "typing ((t, x, v) # r) = (t, PageChange (set_value x v)) # (t, Dispatch (Input x)) # typing r"

text \<open>
  \<open>within t b\<close>: the keystrokes of \<open>b\<close> follow a keystroke at \<open>t\<close>, each less than 500 time
  units after the one before it.  A burst starts no earlier than \<open>t\<close>.  \<open>edits\<close> is what the
  keystrokes do to the page.
\<close>

fun within :: "nat \<Rightarrow> (nat \<times> nat \<times> jsval) list \<Rightarrow> bool" where
  "within t [] = True"
| "within t ((t', x, v) # r) = (t \<le> t' \<and> t' < t + 500 \<and> within t' r)"

fun burst :: "nat \<Rightarrow> (nat \<times> nat \<times> jsval) list \<Rightarrow> bool" where
  "burst t [] = True"
| "burst t ((t', x, v) # r) = (t \<le> t' \<and> within t' r)"

fun edits :: "(nat \<times> nat \<times> jsval) list \<Rightarrow> page \<Rightarrow> page" where
  "edits [] pg = pg"
| "edits ((t, x, v) # r) pg = edits r (set_value x v pg)"

definition is_form_control :: "attrs \<Rightarrow> bool" where
  "is_form_control element =
     (tagName element = Some ''INPUT'' \<or> tagName element = Some ''TEXTAREA'' \<or>
      tagName element = Some ''SELECT'')"

section \<open>Records written, the wording of the specification, and a sample page\<close>

text \<open>
  Every record of the listeners is written with exactly one call of
  \<^verbatim>\<open>console.table\<close>; \<open>tables\<close> are the arguments of these calls, in their order.
\<close>

fun tables :: "console_call list \<Rightarrow> jsval list" where
  "tables [] = []"
| "tables (Table r # cs) = r # tables cs"
| "tables (Log _ # cs) = tables cs"


text \<open>
  A sample page: the document (0), its root element (1), the body (2), a login form (3)
  with a text field (4) and a password field (5), a division without an identifier (6),
  a division that is in no document (7), and a second form (8), one of whose two text
  fields is named \<^verbatim>\<open>__proto__\<close>.
\<close>

definition plain :: attrs where
  "plain =
     \<lparr>key = 0, nodeType = 1, nodeName = ''DIV'', tagName = Some ''DIV'', el_id = Some [],
      className = Str [], textContent = Some [], el_value = Undefined, el_type = None,
      el_name = None, el_action = None, el_method = None, entries = None, childNodes = []\<rparr>"

definition child_of :: "attrs \<Rightarrow> child" where
  "child_of a = \<lparr>c_key = key a, c_nodeType = nodeType a, c_tagName = tagName a\<rparr>"

definition a_username :: attrs where
  "a_username = plain\<lparr>key := 4, nodeName := ''INPUT'', tagName := Some ''INPUT'', el_id := Some ''user'',
     el_value := Str ''alice'', el_type := Some ''text'', el_name := Some ''username''\<rparr>"

definition a_password :: attrs where
  "a_password = plain\<lparr>key := 5, nodeName := ''INPUT'', tagName := Some ''INPUT'',
     el_value := Str ''secret'', el_type := Some ''password'', el_name := Some ''password''\<rparr>"

definition a_form :: attrs where
  "a_form = plain\<lparr>key := 3, nodeName := ''FORM'', tagName := Some ''FORM'', el_id := Some ''login'',
     el_action := Some ''https://example.org/login'', el_method := Some ''post'',
     entries := Some [(''username'', Text ''alice''), (''password'', Text ''secret'')],
     childNodes := [child_of a_username, child_of a_password]\<rparr>"

definition a_div :: attrs where
  "a_div = plain\<lparr>key := 6, className := Str ''box  main'', textContent := Some ''hello''\<rparr>"

definition a_profile :: attrs where
  "a_profile = plain\<lparr>key := 8, nodeName := ''FORM'', tagName := Some ''FORM'',
     el_action := Some ''https://example.org/profile'', el_method := Some ''post'',
     entries := Some [(''username'', Text ''alice''), (''__proto__'', Text ''p'')]\<rparr>"

definition a_body :: attrs where
  "a_body = plain\<lparr>key := 2, nodeName := ''BODY'', tagName := Some ''BODY'',
     childNodes := [child_of a_form, child_of a_div, child_of a_profile]\<rparr>"

definition a_html :: attrs where
  "a_html = plain\<lparr>key := 1, nodeName := ''HTML'', tagName := Some ''HTML'',
     childNodes := [child_of a_body]\<rparr>"

definition a_document :: attrs where
  "a_document = plain\<lparr>key := 0, nodeType := 9, nodeName := ''#document'', tagName := None,
     el_id := None, className := Undefined, textContent := None, childNodes := [child_of a_html]\<rparr>"

definition a_detached :: attrs where
  "a_detached = plain\<lparr>key := 7, className := Str ''tooltip''\<rparr>"

definition n_document :: node where "n_document = Node a_document None"
definition n_html :: node where "n_html = Node a_html (Some n_document)"
definition n_body :: node where "n_body = Node a_body (Some n_html)"
definition n_form :: node where "n_form = Node a_form (Some n_body)"
definition n_username :: node where "n_username = Node a_username (Some n_form)"
definition n_password :: node where "n_password = Node a_password (Some n_form)"
definition n_div :: node where "n_div = Node a_div (Some n_body)"
definition n_detached :: node where "n_detached = Node a_detached None"
definition n_profile :: node where "n_profile = Node a_profile (Some n_body)"

definition sample_dom :: "nat \<Rightarrow> node" where
  "sample_dom =
     (\<lambda>_. n_document)(1 := n_html, 2 := n_body, 3 := n_form, 4 := n_username,
        5 := n_password, 6 := n_div, 7 := n_detached, 8 := n_profile)"

definition sample_page :: page where
  "sample_page =
     \<lparr>dom = sample_dom, body = Some 2, readyState = ''complete'',
      href = ''https://example.org/'', pathname = ''/'', title = ''Example'', referrer = [],
      userAgent = ''agent'', innerWidth = 1200, innerHeight = 800, screen_width = 1920,
      screen_height = 1080, pageYOffset = 0, docScrollTop = 0, docScrollHeight = 1800,
      hidden = False, navigationStart = 0, computedStyle = (\<lambda>_ _. []),
      file_readonly = [''name'', ''lastModified'', ''webkitRelativePath'', ''size'', ''type''],
      localStorage = [], requests = []\<rparr>"

definition fresh :: world where
  "fresh =
     \<lparr>page = sample_page, clock = 0, console = [], tracker = initial_tracker,
      listeners = [], eventTracker = False, uncaught = []\<rparr>"

text \<open>The sample page once the script has run; only the state of the tracker matters here.\<close>

definition attached :: world where
  "attached = (tracker_script fresh)\<lparr>console := []\<rparr>"

text \<open>The records of the key presses among the records written.\<close>

definition is_keypress :: "jsval \<Rightarrow> bool" where
  "is_keypress r = (case r of Obj fs \<Rightarrow> map_of fs ''event'' = Some (Str ''KEYPRESS'') | _ \<Rightarrow> False)"

definition keypresses :: "console_call list \<Rightarrow> jsval list" where
  "keypresses cs = filter is_keypress (tables cs)"

definition keystrokes :: "(nat \<times> key_event) list \<Rightarrow> (nat \<times> action) list" where
  "keystrokes es = map (\<lambda>(t, e). (t, Dispatch (KeyDown e))) es"

definition at_offset :: "int \<Rightarrow> world \<Rightarrow> world" where
  "at_offset y w = w\<lparr>page := (page w)\<lparr>pageYOffset := y\<rparr>\<rparr>"

definition root_click :: click_event where
  "root_click = \<lparr>target = 1, clientX = 10, clientY = 700, pageX = 10, pageY = 700\<rparr>"

definition press :: "string \<Rightarrow> string \<Rightarrow> bool \<Rightarrow> nat \<Rightarrow> key_event" where
  "press k c sh tgt =
     \<lparr>k_key = k, k_code = c, ctrlKey = False, shiftKey = sh, altKey = False, k_target = tgt\<rparr>"

text \<open>Five keys typed into the text field, and one typed into the password field.\<close>

definition sample_keys :: "(nat \<times> key_event) list" where
  "sample_keys =
     [(10, press ''H'' ''KeyH'' True 4), (11, press ''e'' ''KeyE'' False 4),
      (11, press ''l'' ''KeyL'' False 4), (12, press ''x'' ''KeyX'' False 5),
      (12, press ''l'' ''KeyL'' False 4), (13, press ''o'' ''KeyO'' False 4)]"

text \<open>
  The records of the input changes among the records written: the table of an input
  change is the only one with exactly these columns.  \<open>input_change_of pg x\<close> is what the
  callback of the input timer writes for the target \<open>x\<close> on the page \<open>pg\<close>.
\<close>

definition is_input_change :: "jsval \<Rightarrow> bool" where
  "is_input_change r =
     (case r of
        Obj fs \<Rightarrow> map fst fs = [''tagName'', ''type'', ''id'', ''name'', ''value'']
      | _ \<Rightarrow> False)"

definition input_changes :: "console_call list \<Rightarrow> jsval list" where
  "input_changes cs = filter is_input_change (tables cs)"

definition input_change_of :: "page \<Rightarrow> nat \<Rightarrow> jsval list" where
  "input_change_of pg x =
     (if is_form_control (props (dom pg x)) then [input_descriptor (props (dom pg x))] else [])"

text \<open>
  What rounds of \<open>run_timer t\<close> can have done to the input timer between \<open>w\<close> and \<open>w'\<close>:
  nothing, or the timer was due and has fired.
\<close>

definition input_round :: "nat \<Rightarrow> world \<Rightarrow> world \<Rightarrow> bool" where
  "input_round t w w' =
     (page w' = page w \<and> listeners w' = listeners w \<and> max (clock w') t = max (clock w) t \<and>
      (case inputTimeout (tracker w) of
         None \<Rightarrow>
           inputTimeout (tracker w') = None \<and> input_changes (console w') = input_changes (console w)
       | Some (d, x) \<Rightarrow>
           (inputTimeout (tracker w') = Some (d, x) \<and>
            input_changes (console w') = input_changes (console w)) \<or>
           (d \<le> t \<and> inputTimeout (tracker w') = None \<and>
            input_changes (console w') = input_changes (console w) @ input_change_of (page w) x)))"

section \<open>Properties\<close>

subsection \<open>Form submission masks the fields named as passwords\<close>





lemmas sample_defs =
  fresh_def attached_def sample_page_def sample_dom_def n_document_def n_html_def n_body_def
  n_form_def n_username_def n_password_def n_div_def n_detached_def a_document_def a_html_def
  a_body_def a_form_def a_username_def a_password_def a_div_def a_detached_def plain_def
  child_of_def n_profile_def a_profile_def











text \<open>
  Two more runs of the loop: a file field named \<^verbatim>\<open>__proto__\<close> becomes the prototype, and
  the assignment to a later field named like a read-only attribute of the file throws;
  names that are array indices come first in the object.
\<close>

lemma file_prototype_example:
  "formValues_loop [''name'', ''size''] [(''__proto__'', File 9), (''name'', Text ''n'')] new_object =
     Inl TypeError"
  "formValues_loop [''name'', ''size''] [(''b'', Text ''x''), (''10'', Text ''y''), (''2'', Text ''z''),
      (''b'', Text ''w'')] new_object =
     Inr \<lparr>own = [(''2'', Str ''z''), (''10'', Str ''y''), (''b'', Str ''w'')], proto = None\<rparr>"
  by (simp_all add: obj_set_def new_object_def define_own_def is_array_index_def value_of_def
        index_value_def digit_value_def toLowerCase_def toLowerCase_char_def)

subsection \<open>The page is left as it is\<close>

lemma emit_simps [simp]:
  "page (emit cs w) = page w" "clock (emit cs w) = clock w" "tracker (emit cs w) = tracker w"
  "listeners (emit cs w) = listeners w" "console (emit cs w) = console w @ cs"
  "eventTracker (emit cs w) = eventTracker w" "uncaught (emit cs w) = uncaught w"
  by (simp_all add: emit_def)

lemma input_callback_frame [simp]:
  "page (input_callback x w) = page w" "listeners (input_callback x w) = listeners w"
  "tracker (input_callback x w) = tracker w" "clock (input_callback x w) = clock w"
  by (simp_all add: input_callback_def Let_def)

lemma scroll_callback_frame [simp]:
  "page (scroll_callback w) = page w" "listeners (scroll_callback w) = listeners w"
  "clock (scroll_callback w) = clock w"
  "inputTimeout (tracker (scroll_callback w)) = inputTimeout (tracker w)"
  "scrollTimeout (tracker (scroll_callback w)) = scrollTimeout (tracker w)"
  "mouseTimeout (tracker (scroll_callback w)) = mouseTimeout (tracker w)"
  by (simp_all add: scroll_callback_def Let_def)

lemma mouse_callback_frame [simp]:
  "page (mouse_callback x y tgt w) = page w" "listeners (mouse_callback x y tgt w) = listeners w"
  "clock (mouse_callback x y tgt w) = clock w"
  "inputTimeout (tracker (mouse_callback x y tgt w)) = inputTimeout (tracker w)"
  "scrollTimeout (tracker (mouse_callback x y tgt w)) = scrollTimeout (tracker w)"
  "mouseTimeout (tracker (mouse_callback x y tgt w)) = mouseTimeout (tracker w)"
  by (simp_all add: mouse_callback_def Let_def split: prod.splits)

lemma keydown_frame [simp]:
  "page (keydown_listener e w) = page w" "listeners (keydown_listener e w) = listeners w"
  by (simp_all add: keydown_listener_def)

lemma keydown_frame2 [simp]:
  "tracker (keydown_listener e w) = tracker w" "clock (keydown_listener e w) = clock w"
  by (simp_all add: keydown_listener_def)

lemma fire_frame [simp]:
  "page (fire c w) = page w" "listeners (fire c w) = listeners w"
  by (cases c; simp split: option.splits prod.splits)+

lemma run_timer_frame [simp]:
  "page (run_timer t w) = page w" "listeners (run_timer t w) = listeners w"
  by (simp_all add: run_timer_def split: option.splits prod.splits)

lemma advance_frame [simp]:
  "page (advance t w) = page w" "listeners (advance t w) = listeners w"
  by (simp_all add: advance_def Let_def)

lemma click_listener_frame:
  "click_listener e w = Inr w' \<Longrightarrow> page w' = page w \<and> listeners w' = listeners w"
  by (auto simp: click_listener_def Let_def split: sum.splits)

lemma submit_listener_frame:
  "submit_listener x w = Inr w' \<Longrightarrow> page w' = page w \<and> listeners w' = listeners w"
  by (auto simp: submit_listener_def Let_def split: option.splits sum.splits)

lemma initializeTracker_page [simp]: "page (initializeTracker w) = page w"
  by (simp add: initializeTracker_def trackPageView_def)

lemma listener_page: "listener e w = Inr w' \<Longrightarrow> page w' = page w"
  by (cases e)
     (auto simp: input_listener_def scroll_listener_def mousemove_listener_def keydown_listener_def
        visibility_listener_def beforeunload_listener_def
        dest: click_listener_frame submit_listener_frame)

lemma dispatch_page [simp]: "page (dispatch e w) = page w"
  by (auto simp: dispatch_def split: sum.splits dest: listener_page)

lemma tracker_script_page [simp]: "page (tracker_script w) = page w"
  by (simp add: tracker_script_def Let_def)

text \<open>
  C8.  The script, the initialisation, every listener (as the browser runs it on an
  event, an exception included), every timer callback and the custom-event entry point
  leave the page unchanged: the DOM, the computed styles, the storage and the requests
  sent.  What they change is the console, the scalars of the closures, the registration
  of the listeners and the exported object.
\<close>

theorem tracker_writes_only_console:
  "page (tracker_script w) = page w \<and>
   page (initializeTracker w) = page w \<and>
   page (dispatch e w) = page w \<and>
   page (advance t w) = page w \<and>
   page (snd (trackCustomEvent eventName eventData w)) = page w"
  by (simp add: trackCustomEvent_def)

subsection \<open>The sample page\<close>

lemma attached_tracker: "tracker attached = initial_tracker"
  by (simp add: attached_def tracker_script_def fresh_def sample_page_def initializeTracker_def)

lemma attached_page: "page attached = sample_page"
  by (simp add: attached_def fresh_def)

lemma attached_simps:
  "clock attached = 0" "console attached = []" "uncaught attached = []"
  "listeners attached = [''click'', ''submit'', ''input'', ''scroll'', ''mousemove'', ''keydown'',
           ''visibilitychange'', ''beforeunload'']"
  by (simp_all add: attached_def tracker_script_def fresh_def sample_page_def initializeTracker_def
       trackPageView_def)

lemma attached_dom:
  "props (dom (page attached) 4) = a_username" "props (dom (page attached) 5) = a_password"
  by (simp_all add: attached_page sample_page_def sample_dom_def n_username_def n_password_def)

lemma attached_idle: "inputTimeout (tracker attached) = None"
  by (simp add: attached_tracker initial_tracker_def)

lemma sample_controls: "is_form_control a_username" "is_form_control a_password"
  by (simp_all add: is_form_control_def a_username_def a_password_def plain_def)

subsection \<open>Locators of an element that has an identifier\<close>

text \<open>
  C7.  For an element whose \<^verbatim>\<open>id\<close> is a non-empty string, both locators are the
  identifier forms: \<^verbatim>\<open>getCSSSelector\<close> returns \<^verbatim>\<open>#\<close> followed by the id, and
  \<^verbatim>\<open>getXPath\<close> returns the XPath that selects by the id attribute; neither walks
  the ancestors.
\<close>

theorem locators_prefer_identifier:
  assumes "el_id (props element) = Some i" and "i \<noteq> []"
  shows "getCSSSelector element = ''#'' @ i \<and>
         getXPath bd element = Inr (Some (''//*[@id='' @ [CHR 0x22] @ i @ [CHR 0x22] @ '']''))"
proof
  show "getCSSSelector element = ''#'' @ i"
    using assms by (simp add: getCSSSelector_def id_string_def)
  show "getXPath bd element = Inr (Some (''//*[@id='' @ [CHR 0x22] @ i @ [CHR 0x22] @ '']''))"
    using assms by (cases element) (simp add: id_string_def)
qed

theorem locators_prefer_identifier_witness:
  "getCSSSelector n_form = ''#login'' \<and>
   getXPath (Some 2) n_form = Inr (Some (''//*[@id='' @ [CHR 0x22] @ ''login'' @ [CHR 0x22] @ '']''))"
proof -
  have h: "el_id (props n_form) = Some ''login''" by (simp add: sample_defs)
  from locators_prefer_identifier [OF h, of "Some 2"] show ?thesis by simp
qed

lemma sample_locators:
  "getCSSSelector n_div = ''html > body > div.box.main''"
  "getXPath (Some 2) n_div = Inr (Some ''/html/body/div[1]'')"
  "getCSSSelector n_password = ''html > body > form > input''"
  "getXPath (Some 2) n_password = Inr (Some (''//*[@id='' @ [CHR 0x22] @ ''login'' @ [CHR 0x22] @ '']/input[2]''))"
  by (simp_all add: sample_defs getCSSSelector_def id_string_def selector_of_def toLowerCase_def
        toLowerCase_char_def trim_def is_space_def digit_def)

subsection \<open>A click on the root element\<close>

text \<open>
  C4.  The click listener on a page whose root element has no identifier: for a click
  on the root element \<^verbatim>\<open>getXPath\<close> reaches the document, whose parent is null, and
  throws a TypeError; the listener ends there, nothing is written, and the browser
  reports the exception.  The same happens for an element that is in no document.
  \<^verbatim>\<open>getCSSSelector\<close> returns a path for both.
\<close>

theorem click_on_root_element_throws:
  "click_listener root_click attached = Inl TypeError \<and>
   console (dispatch (Click root_click) attached) = console attached \<and>
   uncaught (dispatch (Click root_click) attached) = [TypeError] \<and>
   getXPath (body (page attached)) (dom (page attached) 1) = Inl TypeError \<and>
   getCSSSelector (dom (page attached) 1) = ''html'' \<and>
   click_listener (root_click\<lparr>target := 7\<rparr>) attached = Inl TypeError \<and>
   getCSSSelector (dom (page attached) 7) = ''div.tooltip''"
  by (simp add: sample_defs root_click_def click_listener_def getRelevantStyles_def dispatch_def
        tracker_script_def initializeTracker_def trackPageView_def emit_def
        getCSSSelector_def id_string_def selector_of_def toLowerCase_def toLowerCase_char_def
        trim_def is_space_def)

subsection \<open>Custom events\<close>

text \<open>
  C9.  \<^verbatim>\<open>EventTracker.trackCustomEvent\<close> returns undefined and writes four lines: the
  label ending in the name as given, the payload as given, the time, and an empty line.
  Nothing of the payload is masked: a payload with a field named \<^verbatim>\<open>password\<close> is
  written with the value of that field.
\<close>

theorem custom_event_verbatim:
  "trackCustomEvent eventName eventData w =
     (Undefined,
      w\<lparr>console := console w @
         [Log [Str (''%c'' @ e_target @ '' CUSTOM EVENT: '' @ eventName), Str (badge ''#673AB7'')],
          Log [Str ''Event Data:'', eventData],
          Log [Str ''Timestamp:'', DateISO (clock w)],
          blank]\<rparr>) \<and>
   Log [Str ''Event Data:'', Obj [(''password'', Str ''secret'')]]
     \<in> set (console (snd (trackCustomEvent eventName (Obj [(''password'', Str ''secret'')]) w)))"
  by (simp add: trackCustomEvent_def emit_def)

subsection \<open>The gate of the scroll records\<close>

lemma scroll_callback_eq:
  "scroll_callback w =
     (if num_gt (num_abs (num_sub (scrollPercentage_of (page w)) (lastScrollPosition (tracker w)))) (Fin 10)
      then emit
             [Log [Str (''%c'' @ e_scroll @ '' SCROLL EVENT''), Str (badge ''#00BCD4'')],
              Table (scrollData (clock w) (scrollTop_of (page w)) (scrollPercentage_of (page w))
                       (scrollPercentage_of (page w))),
              blank]
             (w\<lparr>tracker := (tracker w)\<lparr>lastScrollPosition := scrollPercentage_of (page w)\<rparr>\<rparr>)
      else w)"
  by (simp add: scroll_callback_def Let_def)

text \<open>Nothing but the scroll callback and the initialisation assigns to \<^verbatim>\<open>lastScrollPosition\<close>.\<close>

lemma lastScrollPosition_frame:
  "e \<noteq> DOMContentLoaded \<Longrightarrow>
     lastScrollPosition (tracker (dispatch e w)) = lastScrollPosition (tracker w)"
  "lastScrollPosition (tracker (fire TInput w)) = lastScrollPosition (tracker w)"
  "lastScrollPosition (tracker (fire TMouse w)) = lastScrollPosition (tracker w)"
  "lastScrollPosition (tracker (snd (trackCustomEvent eventName eventData w))) =
     lastScrollPosition (tracker w)"
proof -
  show "e \<noteq> DOMContentLoaded \<Longrightarrow>
     lastScrollPosition (tracker (dispatch e w)) = lastScrollPosition (tracker w)"
    by (cases e)
       (auto simp: dispatch_def click_listener_def submit_listener_def input_listener_def
          scroll_listener_def mousemove_listener_def keydown_listener_def visibility_listener_def
          beforeunload_listener_def Let_def split: sum.splits option.splits)
  show "lastScrollPosition (tracker (fire TInput w)) = lastScrollPosition (tracker w)"
    by (simp split: option.splits prod.splits)
  show "lastScrollPosition (tracker (fire TMouse w)) = lastScrollPosition (tracker w)"
    by (simp add: mouse_callback_def Let_def split: option.splits prod.splits)
  show "lastScrollPosition (tracker (snd (trackCustomEvent eventName eventData w))) =
     lastScrollPosition (tracker w)"
    by (simp add: trackCustomEvent_def)
qed

text \<open>
  C5.  The scroll callback writes a record exactly when the rounded percentage differs
  from \<^verbatim>\<open>lastScrollPosition\<close> by more than 10, and \<^verbatim>\<open>lastScrollPosition\<close> is then the
  percentage of that record (otherwise it is unchanged).  So of two consecutive samples
  whose percentages differ by at most 10, at most one writes a record.
\<close>

theorem scroll_delta_gate:
  assumes "scrollPercentage_of (page w) = Fin p1" and "scrollPercentage_of (page v) = Fin p2"
    and "\<bar>p1 - p2\<bar> \<le> 10"
    and "lastScrollPosition (tracker v) = lastScrollPosition (tracker (scroll_callback w))"
  shows "(console (scroll_callback w) \<noteq> console w) =
           num_gt (num_abs (num_sub (scrollPercentage_of (page w)) (lastScrollPosition (tracker w)))) (Fin 10) \<and>
         lastScrollPosition (tracker (scroll_callback w)) =
           (if console (scroll_callback w) \<noteq> console w then scrollPercentage_of (page w)
            else lastScrollPosition (tracker w)) \<and>
         (console (scroll_callback w) = console w \<or> console (scroll_callback v) = console v)"
proof (intro conjI)
  show g: "(console (scroll_callback w) \<noteq> console w) =
           num_gt (num_abs (num_sub (scrollPercentage_of (page w)) (lastScrollPosition (tracker w)))) (Fin 10)"
    by (simp add: scroll_callback_eq)
  show l: "lastScrollPosition (tracker (scroll_callback w)) =
           (if console (scroll_callback w) \<noteq> console w then scrollPercentage_of (page w)
            else lastScrollPosition (tracker w))"
    by (simp add: scroll_callback_eq)
  show "console (scroll_callback w) = console w \<or> console (scroll_callback v) = console v"
  proof (cases "console (scroll_callback w) = console w")
    case True
    then show ?thesis by simp
  next
    case False
    with l assms have "lastScrollPosition (tracker v) = Fin p1" by simp
    with assms have "console (scroll_callback v) = console v"
      by (simp add: scroll_callback_eq)
    then show ?thesis by simp
  qed
qed

theorem scroll_delta_gate_witness:
  "scrollPercentage_of (page (at_offset 800 attached)) = Fin 80 \<and>
   scrollPercentage_of (page (at_offset 850 (scroll_callback (at_offset 800 attached)))) = Fin 85 \<and>
   console (scroll_callback (at_offset 800 attached)) \<noteq> console (at_offset 800 attached) \<and>
   console (scroll_callback (at_offset 850 (scroll_callback (at_offset 800 attached)))) =
     console (at_offset 850 (scroll_callback (at_offset 800 attached)))"
proof -
  let ?w = "at_offset 800 attached"
  let ?v = "at_offset 850 (scroll_callback ?w)"
  have 1: "scrollPercentage_of (page ?w) = Fin 80"
    by (simp add: at_offset_def attached_page sample_page_def scrollPercentage_of_def
          scrollTop_of_def percentage_of_def)
  have 2: "scrollPercentage_of (page ?v) = Fin 85"
    by (simp add: at_offset_def attached_page sample_page_def scrollPercentage_of_def
          scrollTop_of_def percentage_of_def)
  have 3: "\<bar>(80::int) - 85\<bar> \<le> 10" by simp
  have 4: "lastScrollPosition (tracker ?v) = lastScrollPosition (tracker (scroll_callback ?w))"
    by (simp add: at_offset_def)
  have 5: "console (scroll_callback ?w) \<noteq> console ?w"
    using 1 by (simp add: scroll_callback_eq at_offset_def attached_tracker initial_tracker_def)
  from scroll_delta_gate [OF 1 2 3 4] 1 2 5 show ?thesis by simp
qed

text \<open>
  C3.  The direction of a scroll record.  On a page that scrolls over 1000 pixels, a
  sample at the offset 800 (80 per cent) and then a sample at the offset 500 (50 per
  cent) are both recorded; the second is recorded as a movement down although the page
  has moved up: the offset in pixels is compared with \<^verbatim>\<open>lastScrollPosition\<close> after
  the new percentage has been assigned to it.
\<close>

theorem scroll_direction_reads_overwritten_position:
  "tables (console (scroll_callback (at_offset 500 (scroll_callback (at_offset 800 attached))))) =
     [Obj [(''event'', Str ''SCROLL''), (''timestamp'', DateISO 0), (''position'', Num (Fin 800)),
           (''percentage'', Str ''80%''), (''direction'', Str ''down'')],
      Obj [(''event'', Str ''SCROLL''), (''timestamp'', DateISO 0), (''position'', Num (Fin 500)),
           (''percentage'', Str ''50%''), (''direction'', Str ''down'')]]"
  by (simp add: scroll_callback_eq at_offset_def attached_page attached_tracker attached_simps
        initial_tracker_def sample_page_def scrollPercentage_of_def scrollTop_of_def percentage_of_def
        scrollData_def number_toString_def digit_def blank_def)

subsection \<open>Timers\<close>

lemma run_Cons: "run (a # tr) w = run tr (step w a)"
  by (simp add: run_def)

lemma run_Nil: "run [] w = w"
  by (simp add: run_def)

lemma tables_append: "tables (xs @ ys) = tables xs @ tables ys"
  by (induction xs rule: tables.induct) simp_all

lemma input_changes_append: "input_changes (xs @ ys) = input_changes xs @ input_changes ys"
  by (simp add: input_changes_def tables_append)

lemma input_changes_Nil: "input_changes [] = []"
  by (simp add: input_changes_def)

lemma input_changes_input_callback:
  "input_changes (console (input_callback x w)) = input_changes (console w) @ input_change_of (page w) x"
  by (simp add: input_callback_def Let_def input_changes_append input_change_of_def is_form_control_def)
     (simp add: input_changes_def input_record_def input_descriptor_def is_input_change_def blank_def)

lemma input_changes_scroll_callback:
  "input_changes (console (scroll_callback w)) = input_changes (console w)"
  by (simp add: scroll_callback_eq input_changes_append)
     (simp add: input_changes_def scrollData_def is_input_change_def blank_def)

lemma input_changes_mouse_callback:
  "input_changes (console (mouse_callback x y tgt w)) = input_changes (console w)"
  by (simp add: mouse_callback_def Let_def input_changes_append split: prod.splits)
     (simp add: input_changes_def is_input_change_def blank_def)

lemma earliest_mem: "earliest xs = Some x \<Longrightarrow> x \<in> set xs"
  by (induction xs arbitrary: x) (auto split: option.splits if_splits)

lemma earliest_None: "(earliest xs = None) = (xs = [])"
  by (cases xs) (auto split: option.splits)

lemma length_due_timers: "length (due_timers t k) \<le> 3"
proof -
  have "length (due_timers t k) \<le>
          length ((case mouseTimeout k of None \<Rightarrow> [] | Some (d, _) \<Rightarrow> [(d, TMouse)]) @
                  (case inputTimeout k of None \<Rightarrow> [] | Some (d, _) \<Rightarrow> [(d, TInput)]) @
                  (case scrollTimeout k of None \<Rightarrow> [] | Some d \<Rightarrow> [(d, TScroll)]))"
    unfolding due_timers_def by (rule length_filter_le)
  also have "\<dots> \<le> 3" by (simp split: option.splits prod.splits)
  finally show ?thesis .
qed

lemma due_timers_mem:
  "((d, TMouse) \<in> set (due_timers t k)) = (d \<le> t \<and> (\<exists>x y g. mouseTimeout k = Some (d, x, y, g)))"
  "((d, TInput) \<in> set (due_timers t k)) = (d \<le> t \<and> (\<exists>x. inputTimeout k = Some (d, x)))"
  "((d, TScroll) \<in> set (due_timers t k)) = (d \<le> t \<and> scrollTimeout k = Some d)"
  by (auto simp: due_timers_def split: option.splits prod.splits) metis+

lemma fire_fewer_due:
  assumes "(d, c) \<in> set (due_timers t (tracker w))"
  shows "Suc (length (due_timers t (tracker (fire c w)))) = length (due_timers t (tracker w))"
proof (cases c)
  case TMouse
  with assms obtain x y g where "d \<le> t" "mouseTimeout (tracker w) = Some (d, x, y, g)"
    by (auto simp: due_timers_mem)
  with TMouse show ?thesis
    by (simp add: due_timers_def split: option.splits prod.splits)
next
  case TInput
  with assms obtain x where "d \<le> t" "inputTimeout (tracker w) = Some (d, x)"
    by (auto simp: due_timers_mem)
  with TInput show ?thesis
    by (simp add: due_timers_def split: option.splits prod.splits)
next
  case TScroll
  with assms have "d \<le> t" "scrollTimeout (tracker w) = Some d"
    by (auto simp: due_timers_mem)
  with TScroll show ?thesis
    by (simp add: due_timers_def split: option.splits prod.splits)
qed

lemma run_timer_fewer_due:
  "length (due_timers t (tracker (run_timer t w))) = length (due_timers t (tracker w)) - 1"
proof (cases "earliest (due_timers t (tracker w))")
  case None
  then show ?thesis by (simp add: run_timer_def earliest_None)
next
  case (Some a)
  obtain d c where a: "a = (d, c)" by (cases a)
  from Some have "(d, c) \<in> set (due_timers t (tracker w))" by (simp add: a earliest_mem)
  from fire_fewer_due [OF this] show ?thesis by (simp add: run_timer_def Some a)
qed

lemma no_timer_due_after_three_rounds:
  "due_timers t (tracker (run_timer t (run_timer t (run_timer t w)))) = []"
proof -
  have "length (due_timers t (tracker (run_timer t (run_timer t (run_timer t w))))) =
          length (due_timers t (tracker w)) - 1 - 1 - 1"
    by (simp only: run_timer_fewer_due)
  with length_due_timers [of t "tracker w"] show ?thesis by simp
qed

lemma input_round_refl: "input_round t w w"
  by (simp add: input_round_def split: option.splits prod.splits)

lemma fire_input_round:
  assumes "(d, c) \<in> set (due_timers t (tracker w'))" and "input_round t w w'"
  shows "input_round t w (fire c w')"
proof (cases c)
  case TMouse
  with assms obtain x y g where "d \<le> t" "mouseTimeout (tracker w') = Some (d, x, y, g)"
    by (auto simp: due_timers_mem)
  with TMouse assms(2) show ?thesis
    by (auto simp: input_round_def input_changes_mouse_callback split: option.splits prod.splits)
next
  case TInput
  with assms obtain x where "d \<le> t" "inputTimeout (tracker w') = Some (d, x)"
    by (auto simp: due_timers_mem)
  with TInput assms(2) show ?thesis
    by (auto simp: input_round_def input_changes_input_callback split: option.splits prod.splits)
next
  case TScroll
  with assms have "d \<le> t" "scrollTimeout (tracker w') = Some d"
    by (auto simp: due_timers_mem)
  with TScroll assms(2) show ?thesis
    by (auto simp: input_round_def input_changes_scroll_callback split: option.splits prod.splits)
qed

lemma run_timer_input_round:
  assumes "input_round t w w'"
  shows "input_round t w (run_timer t w')"
proof (cases "earliest (due_timers t (tracker w'))")
  case None
  with assms show ?thesis by (simp add: run_timer_def)
next
  case (Some a)
  obtain d c where a: "a = (d, c)" by (cases a)
  from Some have "(d, c) \<in> set (due_timers t (tracker w'))" by (simp add: a earliest_mem)
  from fire_input_round [OF this assms] show ?thesis by (simp add: run_timer_def Some a)
qed

lemma input_due_listed:
  "inputTimeout k = Some (d, x) \<Longrightarrow> d \<le> t \<Longrightarrow> due_timers t k \<noteq> []"
  by (simp add: due_timers_def split: option.splits prod.splits)

text \<open>What the passing of time does to the input timer and to the records of input changes.\<close>

lemma advance_input:
  "inputTimeout (tracker (advance t w)) =
     (case inputTimeout (tracker w) of
        None \<Rightarrow> None
      | Some (d, x) \<Rightarrow> if d \<le> t then None else Some (d, x))"
  "input_changes (console (advance t w)) =
     input_changes (console w) @
     (case inputTimeout (tracker w) of
        None \<Rightarrow> []
      | Some (d, x) \<Rightarrow> if d \<le> t then input_change_of (page w) x else [])"
  "clock (advance t w) = max (clock w) t"
proof -
  let ?w3 = "run_timer t (run_timer t (run_timer t w))"
  have r: "input_round t w ?w3"
    by (intro run_timer_input_round input_round_refl)
  have n: "due_timers t (tracker ?w3) = []"
    by (rule no_timer_due_after_three_rounds)
  have a: "inputTimeout (tracker (advance t w)) = inputTimeout (tracker ?w3)"
          "console (advance t w) = console ?w3"
          "clock (advance t w) = max (clock ?w3) t"
    by (simp_all add: advance_def Let_def)
  show "inputTimeout (tracker (advance t w)) =
     (case inputTimeout (tracker w) of
        None \<Rightarrow> None
      | Some (d, x) \<Rightarrow> if d \<le> t then None else Some (d, x))"
    unfolding a using r n
    by (auto simp: input_round_def split: option.splits prod.splits dest: input_due_listed)
  show "input_changes (console (advance t w)) =
     input_changes (console w) @
     (case inputTimeout (tracker w) of
        None \<Rightarrow> []
      | Some (d, x) \<Rightarrow> if d \<le> t then input_change_of (page w) x else [])"
    unfolding a using r n
    by (auto simp: input_round_def split: option.splits prod.splits dest: input_due_listed)
  show "clock (advance t w) = max (clock w) t"
    unfolding a using r by (simp add: input_round_def)
qed

lemma advance_input_pending:
  assumes "case inputTimeout (tracker w) of None \<Rightarrow> True | Some (d, y) \<Rightarrow> t < d"
  shows "inputTimeout (tracker (advance t w)) = inputTimeout (tracker w)"
    and "input_changes (console (advance t w)) = input_changes (console w)"
  using assms by (auto simp: advance_input split: option.splits)

subsection \<open>Key presses\<close>

lemma keypresses_append: "keypresses (xs @ ys) = keypresses xs @ keypresses ys"
  by (simp add: keypresses_def tables_append)

lemma keypresses_Nil: "keypresses [] = []"
  by (simp add: keypresses_def)

lemma keypresses_input_callback: "keypresses (console (input_callback x w)) = keypresses (console w)"
  by (simp add: input_callback_def Let_def keypresses_append)
     (simp add: keypresses_def input_record_def input_descriptor_def is_keypress_def blank_def)

lemma keypresses_scroll_callback: "keypresses (console (scroll_callback w)) = keypresses (console w)"
  by (simp add: scroll_callback_eq keypresses_append)
     (simp add: keypresses_def scrollData_def is_keypress_def blank_def)

lemma keypresses_mouse_callback: "keypresses (console (mouse_callback x y tgt w)) = keypresses (console w)"
  by (simp add: mouse_callback_def Let_def keypresses_append split: prod.splits)
     (simp add: keypresses_def is_keypress_def blank_def)

lemma keypresses_fire: "keypresses (console (fire c w)) = keypresses (console w)"
  by (cases c)
     (simp_all add: keypresses_input_callback keypresses_scroll_callback keypresses_mouse_callback
        split: option.splits prod.splits)

lemma keypresses_run_timer: "keypresses (console (run_timer t w)) = keypresses (console w)"
  by (simp add: run_timer_def keypresses_fire split: option.splits prod.splits)

lemma keypresses_advance: "keypresses (console (advance t w)) = keypresses (console w)"
  by (simp add: advance_def Let_def keypresses_run_timer)

lemma keypresses_keydown:
  "keypresses (console (keydown_listener e w)) =
     keypresses (console w) @
       (if el_type (props (dom (page w) (k_target e))) = Some ''password'' then []
        else [keyData (clock w) e (tagName (props (dom (page w) (k_target e))))])"
  by (simp add: keydown_listener_def keypresses_append)
     (simp add: keypresses_def key_record_def keyData_def is_keypress_def blank_def)

lemma dispatch_keydown:
  "''keydown'' \<in> set (listeners w) \<Longrightarrow> dispatch (KeyDown e) w = keydown_listener e w"
  by (simp add: dispatch_def)

lemma keypresses_keydown_explicit:
  "keypresses (console (keydown_listener e w)) =
     keypresses (console w) @
       (if el_type (props (dom (page w) (k_target e))) = Some ''password'' then []
        else [Obj [(''event'', Str ''KEYPRESS''), (''timestamp'', DateISO (clock w)),
                   (''key'', Str (k_key e)), (''code'', Str (k_code e)),
                   (''ctrlKey'', Bool (ctrlKey e)), (''shiftKey'', Bool (shiftKey e)),
                   (''altKey'', Bool (altKey e)),
                   (''targetElement'',
                      (case tagName (props (dom (page w) (k_target e))) of
                         None \<Rightarrow> Undefined
                       | Some s \<Rightarrow> Str s))]])"
  by (simp add: keypresses_keydown keyData_def opt_str_def)

text \<open>
  C6.  Once the keydown listener is registered, a sequence of keydown events (at any
  instants, whatever timers are pending) adds one KEYPRESS record for every event whose
  target is not of type \<^verbatim>\<open>password\<close>, in the order of the events, and adds nothing
  for an event whose target is a password field.  The record of an event has the key,
  the code and the three modifier flags of that event and the tag name of its target;
  when the events come in the order of their instants, its timestamp is the instant of
  the event.  Five keys typed into a text field give five records, all different.
\<close>

theorem keydown_never_coalesced:
  assumes "''keydown'' \<in> set (listeners w)"
  shows "\<exists>ts. length ts =
                length (filter (\<lambda>(t, e). el_type (props (dom (page w) (k_target e))) \<noteq> Some ''password'') es) \<and>
              keypresses (console (run (keystrokes es) w)) =
                keypresses (console w) @
                map (\<lambda>(now, t, e).
                       Obj [(''event'', Str ''KEYPRESS''), (''timestamp'', DateISO now),
                            (''key'', Str (k_key e)), (''code'', Str (k_code e)),
                            (''ctrlKey'', Bool (ctrlKey e)), (''shiftKey'', Bool (shiftKey e)),
                            (''altKey'', Bool (altKey e)),
                            (''targetElement'',
                               (case tagName (props (dom (page w) (k_target e))) of
                                  None \<Rightarrow> Undefined
                                | Some s \<Rightarrow> Str s))])
                  (zip ts (filter (\<lambda>(t, e). el_type (props (dom (page w) (k_target e))) \<noteq> Some ''password'') es)) \<and>
              (sorted (clock w # map fst es) \<longrightarrow>
                 ts = map fst (filter (\<lambda>(t, e). el_type (props (dom (page w) (k_target e))) \<noteq> Some ''password'') es))"
  using assms
proof (induction es arbitrary: w)
  case Nil
  show ?case by (simp add: keystrokes_def run_def)
next
  case (Cons a es)
  obtain t e where a: "a = (t, e)" by (cases a)
  let ?P = "\<lambda>(t, e). el_type (props (dom (page w) (k_target e))) \<noteq> Some ''password''"
  let ?R = "\<lambda>(now, t, e).
                       Obj [(''event'', Str ''KEYPRESS''), (''timestamp'', DateISO now),
                            (''key'', Str (k_key e)), (''code'', Str (k_code e)),
                            (''ctrlKey'', Bool (ctrlKey e)), (''shiftKey'', Bool (shiftKey e)),
                            (''altKey'', Bool (altKey e)),
                            (''targetElement'',
                               (case tagName (props (dom (page w) (k_target e))) of
                                  None \<Rightarrow> Undefined
                                | Some s \<Rightarrow> Str s))]"
  let ?w = "keydown_listener e (advance t w)"
  have reg: "''keydown'' \<in> set (listeners ?w)" using Cons.prems by simp
  have pg: "page ?w = page w" by simp
  have ck: "clock ?w = max (clock w) t" by (simp add: advance_input(3))
  have st: "run (keystrokes (a # es)) w = run (keystrokes es) ?w"
    using Cons.prems by (simp add: a keystrokes_def run_Cons dispatch_keydown)
  from Cons.IH [OF reg] obtain ts where
    ts: "length ts = length (filter ?P es)"
        "keypresses (console (run (keystrokes es) ?w)) =
           keypresses (console ?w) @ map ?R (zip ts (filter ?P es))"
        "sorted (clock ?w # map fst es) \<longrightarrow> ts = map fst (filter ?P es)"
    unfolding pg by blast
  have kd: "keypresses (console ?w) =
     keypresses (console w) @ (if ?P (t, e) then [?R (max (clock w) t, t, e)] else [])"
    by (simp add: keypresses_keydown_explicit keypresses_advance advance_input(3))
  have so: "ts = map fst (filter ?P es) \<and> max (clock w) t = t"
    if s: "sorted (clock w # map fst (a # es))"
  proof -
    from s have le: "clock w \<le> t" and s': "sorted (t # map fst es)" by (simp_all add: a)
    from le have m: "max (clock w) t = t" by simp
    from s' have "sorted (clock ?w # map fst es)" by (simp only: ck m)
    with ts(3) m show ?thesis by blast
  qed
  show ?case
  proof (cases "?P (t, e)")
    case False
    with ts kd st so show ?thesis by (intro exI [of _ ts]) (simp add: a)
  next
    case True
    with ts kd st so show ?thesis
      by (intro exI [of _ "max (clock w) t # ts"]) (simp add: a)
  qed
qed

theorem keydown_never_coalesced_witness:
  "''keydown'' \<in> set (listeners attached) \<and>
   sorted (clock attached # map fst sample_keys) \<and>
   keypresses (console (run (keystrokes sample_keys) attached)) =
     [Obj [(''event'', Str ''KEYPRESS''), (''timestamp'', DateISO 10), (''key'', Str ''H''),
           (''code'', Str ''KeyH''), (''ctrlKey'', Bool False), (''shiftKey'', Bool True),
           (''altKey'', Bool False), (''targetElement'', Str ''INPUT'')],
      Obj [(''event'', Str ''KEYPRESS''), (''timestamp'', DateISO 11), (''key'', Str ''e''),
           (''code'', Str ''KeyE''), (''ctrlKey'', Bool False), (''shiftKey'', Bool False),
           (''altKey'', Bool False), (''targetElement'', Str ''INPUT'')],
      Obj [(''event'', Str ''KEYPRESS''), (''timestamp'', DateISO 11), (''key'', Str ''l''),
           (''code'', Str ''KeyL''), (''ctrlKey'', Bool False), (''shiftKey'', Bool False),
           (''altKey'', Bool False), (''targetElement'', Str ''INPUT'')],
      Obj [(''event'', Str ''KEYPRESS''), (''timestamp'', DateISO 12), (''key'', Str ''l''),
           (''code'', Str ''KeyL''), (''ctrlKey'', Bool False), (''shiftKey'', Bool False),
           (''altKey'', Bool False), (''targetElement'', Str ''INPUT'')],
      Obj [(''event'', Str ''KEYPRESS''), (''timestamp'', DateISO 13), (''key'', Str ''o''),
           (''code'', Str ''KeyO''), (''ctrlKey'', Bool False), (''shiftKey'', Bool False),
           (''altKey'', Bool False), (''targetElement'', Str ''INPUT'')]] \<and>
   distinct (keypresses (console (run (keystrokes sample_keys) attached)))"
proof -
  have 1: "''keydown'' \<in> set (listeners attached)" by (simp add: attached_simps)
  have 2: "sorted (clock attached # map fst sample_keys)"
    by (simp add: attached_simps sample_keys_def)
  let ?P = "\<lambda>(t, e). el_type (props (dom (page attached) (k_target e))) \<noteq> Some ''password''"
  have f: "filter ?P sample_keys =
     [(10, press ''H'' ''KeyH'' True 4), (11, press ''e'' ''KeyE'' False 4),
      (11, press ''l'' ''KeyL'' False 4),
      (12, press ''l'' ''KeyL'' False 4), (13, press ''o'' ''KeyO'' False 4)]"
    by (simp add: sample_keys_def press_def attached_dom a_username_def a_password_def plain_def)
  from keydown_never_coalesced [OF 1, of sample_keys] 2 obtain ts where
    a: "ts = map fst (filter ?P sample_keys)" and
    b: "keypresses (console (run (keystrokes sample_keys) attached)) =
       keypresses (console attached) @
       map (\<lambda>(now, t, e).
                       Obj [(''event'', Str ''KEYPRESS''), (''timestamp'', DateISO now),
                            (''key'', Str (k_key e)), (''code'', Str (k_code e)),
                            (''ctrlKey'', Bool (ctrlKey e)), (''shiftKey'', Bool (shiftKey e)),
                            (''altKey'', Bool (altKey e)),
                            (''targetElement'',
                               (case tagName (props (dom (page attached) (k_target e))) of
                                  None \<Rightarrow> Undefined
                                | Some s \<Rightarrow> Str s))])
         (zip ts (filter ?P sample_keys))"
    by blast
  have c: "keypresses (console (run (keystrokes sample_keys) attached)) =
     [Obj [(''event'', Str ''KEYPRESS''), (''timestamp'', DateISO 10), (''key'', Str ''H''),
           (''code'', Str ''KeyH''), (''ctrlKey'', Bool False), (''shiftKey'', Bool True),
           (''altKey'', Bool False), (''targetElement'', Str ''INPUT'')],
      Obj [(''event'', Str ''KEYPRESS''), (''timestamp'', DateISO 11), (''key'', Str ''e''),
           (''code'', Str ''KeyE''), (''ctrlKey'', Bool False), (''shiftKey'', Bool False),
           (''altKey'', Bool False), (''targetElement'', Str ''INPUT'')],
      Obj [(''event'', Str ''KEYPRESS''), (''timestamp'', DateISO 11), (''key'', Str ''l''),
           (''code'', Str ''KeyL''), (''ctrlKey'', Bool False), (''shiftKey'', Bool False),
           (''altKey'', Bool False), (''targetElement'', Str ''INPUT'')],
      Obj [(''event'', Str ''KEYPRESS''), (''timestamp'', DateISO 12), (''key'', Str ''l''),
           (''code'', Str ''KeyL''), (''ctrlKey'', Bool False), (''shiftKey'', Bool False),
           (''altKey'', Bool False), (''targetElement'', Str ''INPUT'')],
      Obj [(''event'', Str ''KEYPRESS''), (''timestamp'', DateISO 13), (''key'', Str ''o''),
           (''code'', Str ''KeyO''), (''ctrlKey'', Bool False), (''shiftKey'', Bool False),
           (''altKey'', Bool False), (''targetElement'', Str ''INPUT'')]]"
    unfolding b a f
    by (simp add: attached_simps keypresses_Nil press_def attached_dom a_username_def plain_def)
  show ?thesis
    unfolding c using 1 2 by simp
qed

lemma sample_keys_records:
  "keypresses (console (run (keystrokes sample_keys) attached)) =
     [keyData 10 (press ''H'' ''KeyH'' True 4) (Some ''INPUT''),
      keyData 11 (press ''e'' ''KeyE'' False 4) (Some ''INPUT''),
      keyData 11 (press ''l'' ''KeyL'' False 4) (Some ''INPUT''),
      keyData 12 (press ''l'' ''KeyL'' False 4) (Some ''INPUT''),
      keyData 13 (press ''o'' ''KeyO'' False 4) (Some ''INPUT'')]"
  by (simp add: sample_keys_def keystrokes_def run_Cons dispatch_keydown
        keypresses_keydown keypresses_advance advance_input(3) attached_simps attached_dom press_def
        a_username_def a_password_def plain_def attached_page sample_page_def sample_dom_def
        n_username_def n_password_def run_Nil keypresses_Nil)

subsection \<open>The debounce of input changes\<close>

lemma dispatch_input:
  "''input'' \<in> set (listeners w) \<Longrightarrow> dispatch (Input x) w = input_listener x w"
  by (simp add: dispatch_def)

text \<open>One keystroke while no input timer is due.\<close>

lemma keystroke_step:
  assumes reg: "''input'' \<in> set (listeners w)"
    and pend: "case inputTimeout (tracker w) of None \<Rightarrow> True | Some (d, y) \<Rightarrow> t < d"
    and now: "clock w \<le> t"
  shows "page (step (step w (t, PageChange (set_value x v))) (t, Dispatch (Input x))) =
           set_value x v (page w)"
    and "listeners (step (step w (t, PageChange (set_value x v))) (t, Dispatch (Input x))) = listeners w"
    and "clock (step (step w (t, PageChange (set_value x v))) (t, Dispatch (Input x))) = t"
    and "inputTimeout (tracker (step (step w (t, PageChange (set_value x v))) (t, Dispatch (Input x)))) =
           Some (t + 500, x)"
    and "input_changes (console (step (step w (t, PageChange (set_value x v))) (t, Dispatch (Input x)))) =
           input_changes (console w)"
proof -
  let ?w1 = "step w (t, PageChange (set_value x v))"
  have w1: "page ?w1 = set_value x v (page w)" "listeners ?w1 = listeners w" "clock ?w1 = t"
    "inputTimeout (tracker ?w1) = inputTimeout (tracker w)"
    "input_changes (console ?w1) = input_changes (console w)"
    using now by (simp_all add: Let_def advance_input(3) advance_input_pending [OF pend])
  have pend1: "case inputTimeout (tracker ?w1) of None \<Rightarrow> True | Some (d, y) \<Rightarrow> t < d"
    using pend by (simp only: w1)
  let ?w2 = "advance t ?w1"
  have w2: "page ?w2 = page ?w1" "listeners ?w2 = listeners ?w1" "clock ?w2 = t"
    "inputTimeout (tracker ?w2) = inputTimeout (tracker ?w1)"
    "input_changes (console ?w2) = input_changes (console ?w1)"
    by (simp_all only: advance_frame advance_input(3) advance_input_pending [OF pend1] w1 max.idem)
  have s: "step ?w1 (t, Dispatch (Input x)) = input_listener x ?w2"
    using reg by (simp only: step.simps) (simp add: dispatch_input w1 del: step.simps)
  show "page (step ?w1 (t, Dispatch (Input x))) = set_value x v (page w)"
    unfolding s by (simp add: input_listener_def w2 w1 del: step.simps)
  show "listeners (step ?w1 (t, Dispatch (Input x))) = listeners w"
    unfolding s by (simp add: input_listener_def w2 w1 del: step.simps)
  show "clock (step ?w1 (t, Dispatch (Input x))) = t"
    unfolding s by (simp add: input_listener_def w2 w1 del: step.simps)
  show "inputTimeout (tracker (step ?w1 (t, Dispatch (Input x)))) = Some (t + 500, x)"
    unfolding s by (simp add: input_listener_def w2 w1 del: step.simps)
  show "input_changes (console (step ?w1 (t, Dispatch (Input x)))) = input_changes (console w)"
    unfolding s by (simp add: input_listener_def w2 w1 del: step.simps)
qed

lemma within_run:
  assumes "''input'' \<in> set (listeners w)"
    and "inputTimeout (tracker w) = Some (clock w + 500, y)"
    and "within (clock w) r"
  shows "page (run (typing r) w) = edits r (page w) \<and>
         input_changes (console (run (typing r) w)) = input_changes (console w) \<and>
         inputTimeout (tracker (run (typing r) w)) =
           Some (fst (last ((clock w, y, u) # r)) + 500, fst (snd (last ((clock w, y, u) # r))))"
  using assms
proof (induction r arbitrary: w y u)
  case Nil
  then show ?case by (simp add: run_def)
next
  case (Cons a r)
  obtain t x v where a: "a = (t, x, v)" by (cases a) auto
  let ?w1 = "step (step w (t, PageChange (set_value x v))) (t, Dispatch (Input x))"
  from Cons.prems have t: "clock w \<le> t" "t < clock w + 500" "within t r" by (simp_all add: a)
  have pend: "case inputTimeout (tracker w) of None \<Rightarrow> True | Some (d, y) \<Rightarrow> t < d"
    using Cons.prems t by simp
  note k = keystroke_step [OF Cons.prems(1) pend t(1), of x v]
  have r1: "run (typing (a # r)) w = run (typing r) ?w1"
    by (simp add: a run_Cons del: step.simps)
  have "page (run (typing r) ?w1) = edits r (page ?w1) \<and>
         input_changes (console (run (typing r) ?w1)) = input_changes (console ?w1) \<and>
         inputTimeout (tracker (run (typing r) ?w1)) =
           Some (fst (last ((clock ?w1, x, v) # r)) + 500, fst (snd (last ((clock ?w1, x, v) # r))))"
    using Cons.prems(1) t(3) by (intro Cons.IH) (simp_all only: k)
  then show ?case
    unfolding r1 by (simp add: k a del: step.simps)
qed

lemma burst_run:
  assumes "''input'' \<in> set (listeners w)"
    and "inputTimeout (tracker w) = None"
    and "burst (clock w) b" and "b \<noteq> []"
  shows "page (run (typing b) w) = edits b (page w) \<and>
         input_changes (console (run (typing b) w)) = input_changes (console w) \<and>
         inputTimeout (tracker (run (typing b) w)) = Some (fst (last b) + 500, fst (snd (last b)))"
proof -
  from assms obtain t x v r where b: "b = (t, x, v) # r" by (cases b) auto
  let ?w1 = "step (step w (t, PageChange (set_value x v))) (t, Dispatch (Input x))"
  from assms have t: "clock w \<le> t" "within t r" by (simp_all add: b)
  have pend: "case inputTimeout (tracker w) of None \<Rightarrow> True | Some (d, y) \<Rightarrow> t < d"
    using assms by simp
  note k = keystroke_step [OF assms(1) pend t(1), of x v]
  have r1: "run (typing b) w = run (typing r) ?w1"
    by (simp add: b run_Cons del: step.simps)
  have "page (run (typing r) ?w1) = edits r (page ?w1) \<and>
         input_changes (console (run (typing r) ?w1)) = input_changes (console ?w1) \<and>
         inputTimeout (tracker (run (typing r) ?w1)) =
           Some (fst (last ((clock ?w1, x, v) # r)) + 500, fst (snd (last ((clock ?w1, x, v) # r))))"
    using assms(1) t(2) by (intro within_run) (simp_all only: k)
  then show ?thesis
    unfolding r1 by (simp add: k b del: step.simps)
qed

lemma set_value_props:
  "props (dom (set_value x v pg) y) =
     (if y = x then (props (dom pg x))\<lparr>el_value := v\<rparr> else props (dom pg y))"
  by (simp add: set_value_def)

lemma edits_props_other:
  "(props (dom (edits r pg) y))\<lparr>el_value := u\<rparr> = (props (dom pg y))\<lparr>el_value := u\<rparr>"
  by (induction r pg rule: edits.induct) (simp_all add: set_value_props)

lemma edits_last_value:
  "r \<noteq> [] \<Longrightarrow> last r = (t, y, v) \<Longrightarrow> el_value (props (dom (edits r pg) y)) = v"
proof (induction r pg rule: edits.induct)
  case (1 pg)
  then show ?case by simp
next
  case (2 t' x' v' r pg)
  show ?case
  proof (cases "r = []")
    case True
    with 2 show ?thesis by (simp add: set_value_props)
  next
    case False
    with 2 show ?thesis by simp
  qed
qed

lemma edits_last_props:
  assumes "r \<noteq> []" and "last r = (t, y, v)"
  shows "props (dom (edits r pg) y) = (props (dom pg y))\<lparr>el_value := v\<rparr>"
proof -
  have "props (dom (edits r pg) y) =
          (props (dom (edits r pg) y))\<lparr>el_value := el_value (props (dom (edits r pg) y))\<rparr>"
    by simp
  also have "\<dots> = (props (dom (edits r pg) y))\<lparr>el_value := v\<rparr>"
    using edits_last_value [OF assms] by simp
  also have "\<dots> = (props (dom pg y))\<lparr>el_value := v\<rparr>"
    by (rule edits_props_other)
  finally show ?thesis .
qed

lemma is_form_control_value [simp]:
  "is_form_control (a\<lparr>el_value := v\<rparr>) = is_form_control a"
  by (simp add: is_form_control_def)

text \<open>The burst, then the end of the window: the one callback that runs is the last one set.\<close>

lemma debounce_last:
  assumes "''input'' \<in> set (listeners w)"
    and "inputTimeout (tracker w) = None"
    and "burst (clock w) b" and "b \<noteq> []" and "last b = (tN, xN, vN)" and "tN + 500 \<le> T"
  shows "input_changes (console (advance T (run (typing b) w))) =
           input_changes (console w) @
             (if is_form_control (props (dom (page w) xN))
              then [input_descriptor ((props (dom (page w) xN))\<lparr>el_value := vN\<rparr>)] else [])"
proof -
  have p: "props (dom (edits b (page w)) xN) = (props (dom (page w) xN))\<lparr>el_value := vN\<rparr>"
    using assms by (intro edits_last_props) simp_all
  from burst_run [OF assms(1-4)] assms(5)
  have r: "page (run (typing b) w) = edits b (page w)"
    "input_changes (console (run (typing b) w)) = input_changes (console w)"
    "inputTimeout (tracker (run (typing b) w)) = Some (tN + 500, xN)"
    by simp_all
  show ?thesis
    using assms(6) by (simp add: advance_input(2) r input_change_of_def p)
qed

text \<open>
  C10.  The input listener replaces whatever input timer is pending by one for its own
  target, so there is one timer for all elements.  A burst of input events, on whatever
  elements, each less than 500 time units after the one before, writes exactly one
  record of an input change once 500 time units have passed after the last event: the
  record of the target of the last event with the value it then has (and none if that
  target is not an input, a textarea or a select).
\<close>

theorem input_timer_is_shared:
  assumes "''input'' \<in> set (listeners w)"
    and "inputTimeout (tracker w) = None"
    and "burst (clock w) b" and "b \<noteq> []" and "last b = (tN, xN, vN)" and "tN + 500 \<le> T"
  shows "inputTimeout (tracker (input_listener x v)) = Some (clock v + 500, x) \<and>
         input_changes (console (advance T (run (typing b) w))) =
           input_changes (console w) @
             (if is_form_control (props (dom (page w) xN))
              then [input_descriptor ((props (dom (page w) xN))\<lparr>el_value := vN\<rparr>)] else [])"
proof
  show "inputTimeout (tracker (input_listener x v)) = Some (clock v + 500, x)"
    by (simp add: input_listener_def)
  show "input_changes (console (advance T (run (typing b) w))) =
           input_changes (console w) @
             (if is_form_control (props (dom (page w) xN))
              then [input_descriptor ((props (dom (page w) xN))\<lparr>el_value := vN\<rparr>)] else [])"
    using assms by (rule debounce_last)
qed

theorem input_timer_is_shared_witness:
  "burst (clock attached) [(0, 4, Str ''a''), (100, 5, Str ''b''), (550, 4, Str ''al'')] \<and>
   input_changes (console (advance 1050
     (run (typing [(0, 4, Str ''a''), (100, 5, Str ''b''), (550, 4, Str ''al'')]) attached))) =
     [input_descriptor (a_username\<lparr>el_value := Str ''al''\<rparr>)]"
proof -
  let ?b = "[(0, 4, Str ''a''), (100, 5, Str ''b''), (550, 4, Str ''al'')] :: (nat \<times> nat \<times> jsval) list"
  have 1: "''input'' \<in> set (listeners attached)" by (simp add: attached_simps)
  have 2: "burst (clock attached) ?b" by (simp add: attached_simps)
  have 3: "?b \<noteq> []" by simp
  have 4: "last ?b = (550, 4, Str ''al'')" by simp
  have 5: "(550::nat) + 500 \<le> 1050" by simp
  from input_timer_is_shared [OF 1 attached_idle 2 3 4 5, of 4 attached] 2 show ?thesis
    by (simp add: attached_dom sample_controls attached_simps input_changes_Nil)
qed

text \<open>
  C2, as amended.  The debounce is by one timer for the whole document.  A burst of
  \<open>N \<ge> 1\<close> input events on the same field, each less than 500 time units after the one
  before (so every keystroke resets the timer), with no input event on another element
  among them, writes exactly one record once 500 time units have passed after the last
  event, if the field is an input, a textarea or a select, and none otherwise; the
  record has the value of the last event, masked if the field is of type
  \<^verbatim>\<open>password\<close>.
\<close>

theorem input_debounce_same_field:
  assumes "''input'' \<in> set (listeners w)"
    and "inputTimeout (tracker w) = None"
    and "burst (clock w) b" and "b \<noteq> []" and "\<forall>e \<in> set b. fst (snd e) = x"
    and "fst (last b) + 500 \<le> T"
  shows "input_changes (console (advance T (run (typing b) w))) =
           input_changes (console w) @
             (if tagName (props (dom (page w) x)) = Some ''INPUT'' \<or>
                 tagName (props (dom (page w) x)) = Some ''TEXTAREA'' \<or>
                 tagName (props (dom (page w) x)) = Some ''SELECT''
              then [Obj [(''tagName'', opt_str (tagName (props (dom (page w) x)))),
                         (''type'', or_NA (el_type (props (dom (page w) x)))),
                         (''id'', or_NA (el_id (props (dom (page w) x)))),
                         (''name'', or_NA (el_name (props (dom (page w) x)))),
                         (''value'', if el_type (props (dom (page w) x)) = Some ''password''
                                     then Str ''***MASKED***'' else snd (snd (last b)))]]
              else [])"
proof -
  obtain tN xN vN where l: "last b = (tN, xN, vN)" by (cases "last b") auto
  from assms l have x: "xN = x" by (metis fst_conv last_in_set snd_conv)
  have "input_changes (console (advance T (run (typing b) w))) =
           input_changes (console w) @
             (if is_form_control (props (dom (page w) xN))
              then [input_descriptor ((props (dom (page w) xN))\<lparr>el_value := vN\<rparr>)] else [])"
    using assms l by (intro debounce_last) simp_all
  then show ?thesis
    by (simp add: x l input_descriptor_def is_form_control_def MASKED_def)
qed

theorem input_debounce_same_field_witness:
  "burst (clock attached) [(0, 4, Str ''a''), (200, 4, Str ''al''), (600, 4, Str ''ali'')] \<and>
   input_changes (console (advance 1100
     (run (typing [(0, 4, Str ''a''), (200, 4, Str ''al''), (600, 4, Str ''ali'')]) attached))) =
     [Obj [(''tagName'', Str ''INPUT''), (''type'', Str ''text''), (''id'', Str ''user''),
           (''name'', Str ''username''), (''value'', Str ''ali'')]]"
proof -
  let ?b = "[(0, 4, Str ''a''), (200, 4, Str ''al''), (600, 4, Str ''ali'')] :: (nat \<times> nat \<times> jsval) list"
  have 1: "''input'' \<in> set (listeners attached)" by (simp add: attached_simps)
  have 2: "burst (clock attached) ?b" by (simp add: attached_simps)
  have 3: "?b \<noteq> []" by simp
  have 4: "\<forall>e \<in> set ?b. fst (snd e) = 4" by simp
  have 5: "fst (last ?b) + 500 \<le> 1100" by simp
  from input_debounce_same_field [OF 1 attached_idle 2 3 4 5] 2 show ?thesis
    by (simp add: attached_dom attached_simps a_username_def plain_def opt_str_def or_NA_def
          input_changes_Nil)
qed

text \<open>
  The claim C2 as stated, with one timer for each input, fails: an input event on the
  password field (5) and, 100 time units later, one on the text field (4) write one
  record, for the text field; the event on the password field has none.
\<close>

theorem input_debounce_not_per_field:
  "input_changes (console (advance 1000 (run (typing [(0, 5, Str ''s3''), (100, 4, Str ''al'')]) attached))) =
     [Obj [(''tagName'', Str ''INPUT''), (''type'', Str ''text''), (''id'', Str ''user''),
           (''name'', Str ''username''), (''value'', Str ''al'')]] \<and>
   input_descriptor (a_password\<lparr>el_value := Str ''s3''\<rparr>) \<notin>
     set (input_changes (console (advance 1000
       (run (typing [(0, 5, Str ''s3''), (100, 4, Str ''al'')]) attached))))"
proof -
  let ?b = "[(0, 5, Str ''s3''), (100, 4, Str ''al'')] :: (nat \<times> nat \<times> jsval) list"
  have 1: "''input'' \<in> set (listeners attached)" by (simp add: attached_simps)
  have 2: "burst (clock attached) ?b" by (simp add: attached_simps)
  have c: "input_changes (console (advance 1000 (run (typing ?b) attached))) =
        input_changes (console attached) @
          (if is_form_control (props (dom (page attached) 4))
           then [input_descriptor ((props (dom (page attached) 4))\<lparr>el_value := Str ''al''\<rparr>)] else [])"
    using 1 2 by (intro debounce_last [where tN = 100]) (simp_all add: attached_idle)
  have t: "input_changes (console (advance 1000 (run (typing ?b) attached))) =
           [input_descriptor (a_username\<lparr>el_value := Str ''al''\<rparr>)]"
    unfolding c by (simp add: attached_dom sample_controls attached_simps input_changes_Nil)
  show ?thesis
    unfolding t
    by (simp add: input_descriptor_def a_username_def a_password_def plain_def opt_str_def
          or_NA_def MASKED_def)
qed

end
